theory Spec2Isabelle
  imports Complex_Main "HOL-Library.AList" "HOL-Library.Log_Nat"
begin

section \<open>Values shared by the models\<close>

text \<open>
  The central server receives its events as decoded JSON, so the fields of an event are
  dynamically typed. A JSON number is an exact rational here (Python keeps int and float
  apart, but compares and hashes them by numeric value); NaN and the infinities are left out.
  A JSON object is its list of key/value pairs, keys distinct as after \<^verbatim>\<open>json.loads\<close>.
\<close>

datatype json =
    JNull
  | JBool bool
  | JNum rat
  | JStr string
  | JList "json list"
  | JDict "(string \<times> json) list"

text \<open>The exceptions the modelled code can raise.\<close>

datatype excecao =
    KeyError json
  | TypeError
  | ValueError
  | AttributeError
  | RuntimeError

text \<open>
  A \<^verbatim>\<open>datetime\<close> is a count of microseconds, either naive or timezone-aware (then
  the count is the UTC instant). Subtracting a naive from an aware value, or the reverse,
  raises TypeError in Python; otherwise the difference is a \<^verbatim>\<open>timedelta\<close>, a
  whole number of microseconds.
\<close>

datatype datetime = Naive int | Aware int

fun dt_sub :: "datetime \<Rightarrow> datetime \<Rightarrow> excecao + int" where
  "dt_sub (Naive a) (Naive b) = Inr (a - b)"
| "dt_sub (Aware a) (Aware b) = Inr (a - b)"
| "dt_sub _ _ = Inl TypeError"

section \<open>Floating point\<close>

text \<open>
  A Python \<^verbatim>\<open>float\<close> is an IEEE 754 binary64 number. The model has the finite ones,
  each as the rational it denotes, and every operation returns the exact result rounded
  to the nearest number with a significand of 53 bits, ties to the even significand.
  The infinities, NaN and the shorter significands of the subnormal range are outside
  the model.

  \<open>expoente x\<close> is the binary exponent of a positive \<open>x\<close>, the integer \<open>e\<close> with
  \<open>2 powi e \<le> x < 2 powi (e + 1)\<close>; \<open>fl x\<close> is \<open>x\<close> rounded.
\<close>

definition expoente :: "rat \<Rightarrow> int" where
  "expoente x = (if 1 \<le> x then bitlen \<lfloor>x\<rfloor> - 1 else - bitlen (\<lceil>1 / x\<rceil> - 1))"

definition round_half_even :: "rat \<Rightarrow> int" where
  "round_half_even y =
     (let f = \<lfloor>y\<rfloor>; r = y - of_int f
      in if r < 1 / 2 then f else if 1 / 2 < r then f + 1 else if even f then f else f + 1)"

definition fl :: "rat \<Rightarrow> rat" where
  "fl x =
     (if x = 0 then 0
      else (let s = 2 powi (expoente \<bar>x\<bar> - 52)
            in sgn x * of_int (round_half_even (\<bar>x\<bar> / s)) * s))"

text \<open>
  The operations of Python that the program uses: \<^verbatim>\<open>int / int\<close>, the conversion of
  an \<^verbatim>\<open>int\<close> operand to \<^verbatim>\<open>float\<close>, \<^verbatim>\<open>float * float\<close> and
  \<^verbatim>\<open>float / float\<close>.
\<close>

definition int_truediv :: "int \<Rightarrow> int \<Rightarrow> rat" where
  "int_truediv a b = fl (of_int a / of_int b)"

definition float_of_int :: "int \<Rightarrow> rat" where
  "float_of_int n = fl (of_int n)"

definition float_mul :: "rat \<Rightarrow> rat \<Rightarrow> rat" where
  "float_mul x y = fl (x * y)"

definition float_truediv :: "rat \<Rightarrow> rat \<Rightarrow> rat" where
  "float_truediv x y = fl (x / y)"

text \<open>\<^verbatim>\<open>int(x)\<close> truncates towards zero.\<close>

definition py_int :: "rat \<Rightarrow> int" where
  "py_int x = (if 0 \<le> x then \<lfloor>x\<rfloor> else \<lceil>x\<rceil>)"

text \<open>
  \<^verbatim>\<open>x % y\<close> on floats: the remainder of the truncated division, which is exact, moved
  by \<open>y\<close> (and rounded) when it is not zero and its sign is not the sign of \<open>y\<close>.
\<close>

definition py_mod :: "rat \<Rightarrow> rat \<Rightarrow> rat" where
  "py_mod x y =
     (let m = x - y * of_int (py_int (x / y))
      in if m \<noteq> 0 \<and> (y < 0) \<noteq> (m < 0) then fl (m + y) else m)"

text \<open>
  \<^verbatim>\<open>timedelta.total_seconds()\<close>: the microseconds of the difference divided by
  \<open>10\<^sup>6\<close>, as a float.
\<close>

definition total_seconds :: "int \<Rightarrow> rat" where
  "total_seconds delta = int_truediv delta 1000000"


section \<open>Vehicles (src/core/models/veiculo.py)\<close>

datatype status_veiculo = ESTACIONADO | SAIU | BLOQUEADO

record veiculo =
  placa :: json
  timestamp_entrada :: datetime
  timestamp_saida :: "datetime option"
  andar :: json
  vaga :: "int option"
  status :: status_veiculo
  valor_calculado :: "rat option"
  tempo_permanencia_minutos :: "int option"

text \<open>The constructor; \<^verbatim>\<open>vaga\<close> keeps its default \<^verbatim>\<open>None\<close> at every call site.\<close>

definition Veiculo :: "json \<Rightarrow> datetime \<Rightarrow> json \<Rightarrow> veiculo" where
  "Veiculo p ts a =
     \<lparr>placa = p, timestamp_entrada = ts, timestamp_saida = None, andar = a, vaga = None,
      status = ESTACIONADO, valor_calculado = None, tempo_permanencia_minutos = None\<rparr>"

definition calcular_tempo_permanencia :: "veiculo \<Rightarrow> datetime \<Rightarrow> excecao + int" where
  "calcular_tempo_permanencia v ts_saida =
     (case dt_sub ts_saida (timestamp_entrada v) of
        Inl e \<Rightarrow> Inl e
      | Inr delta \<Rightarrow>
          (let minutos = py_int (float_truediv (total_seconds delta) (float_of_int 60))
           in if py_mod (total_seconds delta) (float_of_int 60) > 0
              then Inr (minutos + 1) else Inr minutos))"

text \<open>Python's \<^verbatim>\<open>max(a, b)\<close> returns \<open>b\<close> only when it is strictly greater.\<close>

definition py_max :: "rat \<Rightarrow> rat \<Rightarrow> rat" where
  "py_max a b = (if b > a then b else a)"

definition calcular_valor :: "veiculo \<Rightarrow> rat \<Rightarrow> rat \<Rightarrow> rat" where
  "calcular_valor v preco_por_minuto valor_minimo =
     (case tempo_permanencia_minutos v of
        None \<Rightarrow> valor_minimo
      | Some t \<Rightarrow> py_max (float_mul (float_of_int t) preco_por_minuto) valor_minimo)"

text \<open>
  The dictionary returned by \<^verbatim>\<open>processar_saida\<close>; the timestamps are kept as values
  rather than as their ISO strings.
\<close>

record resultado_saida =
  res_placa :: json
  res_tempo_permanencia_minutos :: int
  res_valor_calculado :: rat
  res_timestamp_entrada :: datetime
  res_timestamp_saida :: datetime

text \<open>
  \<^verbatim>\<open>processar_saida\<close> mutates the vehicle step by step, so the vehicle is returned
  also when the duration computation raises: the exit timestamp is then already stored.
\<close>

definition processar_saida ::
  "veiculo \<Rightarrow> datetime \<Rightarrow> rat \<Rightarrow> rat \<Rightarrow> (excecao + resultado_saida) \<times> veiculo" where
  "processar_saida v ts_saida preco_por_minuto valor_minimo =
     (let v1 = v\<lparr>timestamp_saida := Some ts_saida\<rparr>
      in case calcular_tempo_permanencia v1 ts_saida of
           Inl e \<Rightarrow> (Inl e, v1)
         | Inr t \<Rightarrow>
             (let v2 = v1\<lparr>tempo_permanencia_minutos := Some t\<rparr>;
                  valor = calcular_valor v2 preco_por_minuto valor_minimo;
                  v3 = v2\<lparr>valor_calculado := Some valor, status := SAIU\<rparr>
              in (Inr \<lparr>res_placa = placa v3, res_tempo_permanencia_minutos = t,
                       res_valor_calculado = valor,
                       res_timestamp_entrada = timestamp_entrada v3,
                       res_timestamp_saida = ts_saida\<rparr>, v3)))"


section \<open>Events and responses (src/core/models/evento.py)\<close>

datatype tipo_evento = ENTRADA | SAIDA | ERRO | MANUTENCAO

text \<open>\<open>StatusERRO\<close> is \<^verbatim>\<open>StatusEvento.ERRO\<close>, renamed apart from \<^verbatim>\<open>TipoEvento.ERRO\<close>.\<close>

datatype status_evento = PENDENTE | PROCESSANDO | CONCLUIDO | StatusERRO

text \<open>
  The fields that come straight from the request (\<open>placa\<close>, \<open>confianca_lpr\<close>,
  \<open>andar\<close>) keep whatever JSON value the request held. \<open>ident\<close> is the field
  \<^verbatim>\<open>id\<close>.
\<close>

record evento =
  ident :: "string option"
  placa :: json
  tipo :: tipo_evento
  timestamp :: datetime
  confianca_lpr :: json
  andar :: json
  status :: status_evento
  valor_calculado :: "rat option"
  tempo_permanencia_minutos :: "int option"
  erro_descricao :: "string option"

text \<open>
  \<^verbatim>\<open>TipoEvento(value)\<close>: the member whose value is the given string; ValueError for
  every other value.
\<close>

fun TipoEvento :: "json \<Rightarrow> excecao + tipo_evento" where
  "TipoEvento (JStr s) =
     (if s = ''entrada'' then Inr ENTRADA
      else if s = ''saida'' then Inr SAIDA
      else if s = ''erro'' then Inr ERRO
      else if s = ''manutencao'' then Inr MANUTENCAO
      else Inl ValueError)"
| "TipoEvento _ = Inl ValueError"

text \<open>
  The identifier of a response is either the row number that SQLite gave to the stored
  event (\<^verbatim>\<open>str(cursor.lastrowid)\<close>, the number itself is not modelled) or the
  clock-derived \<^verbatim>\<open>evt_<now>\<close>.
\<close>

datatype evento_id = IdBanco | IdRelogio

text \<open>
  The messages of the responses, one constructor per message text of the server:
  "Estacionamento fechado", "Andar bloqueado", "Veiculo ja esta estacionado",
  "Veiculo nao encontrado", "Entrada autorizada", "Valor a pagar: R$ v",
  "Tipo de evento nao suportado: t" and \<^verbatim>\<open>str(e)\<close> of a caught exception.
\<close>

datatype mensagem =
    MsgEstacionamentoFechado
  | MsgAndarBloqueado
  | MsgVeiculoJaEstacionado
  | MsgVeiculoNaoEncontrado
  | MsgEntradaAutorizada
  | MsgValorAPagar rat
  | MsgTipoNaoSuportado tipo_evento
  | MsgExcecao excecao

record evento_resposta =
  evento_id :: evento_id
  sucesso :: bool
  acao :: string
  valor :: "rat option"
  tempo_permanencia :: "int option"
  mensagem :: "mensagem option"


section \<open>The central server (src/core/servidor_central.py)\<close>

subsection \<open>Reading the request\<close>

text \<open>\<^verbatim>\<open>dados[k]\<close>: only a JSON object can be indexed by a string.\<close>

fun getitem :: "json \<Rightarrow> string \<Rightarrow> excecao + json" where
  "getitem (JDict kvs) k =
     (case map_of kvs k of None \<Rightarrow> Inl (KeyError (JStr k)) | Some v \<Rightarrow> Inr v)"
| "getitem _ k = Inl TypeError"

text \<open>\<^verbatim>\<open>dados.get(k, default)\<close>: only a JSON object has the method.\<close>

fun dict_get :: "json \<Rightarrow> string \<Rightarrow> json \<Rightarrow> excecao + json" where
  "dict_get (JDict kvs) k d = (case map_of kvs k of None \<Rightarrow> Inr d | Some v \<Rightarrow> Inr v)"
| "dict_get _ k d = Inl AttributeError"

text \<open>
  What the server takes from its surroundings: the standard library's parsers and the
  database. \<open>fromisoformat\<close>, \<open>decode_utf8\<close> and \<open>json_loads\<close> return \<open>None\<close> where
  the Python function raises; \<open>sqlite_ok\<close> says whether SQLite executes and commits a
  statement.
\<close>

datatype comando_sql =
    InsertEvento evento
  | InsertVeiculo veiculo
  | UpdateVeiculo veiculo

record ambiente =
  fromisoformat :: "string \<Rightarrow> datetime option"
  sqlite_ok :: "comando_sql \<Rightarrow> bool"
  decode_utf8 :: "string \<Rightarrow> string option"
  json_loads :: "string \<Rightarrow> json option"

text \<open>\<^verbatim>\<open>datetime.fromisoformat(x)\<close>: TypeError unless \<open>x\<close> is a string.\<close>

fun py_fromisoformat :: "ambiente \<Rightarrow> json \<Rightarrow> excecao + datetime" where
  "py_fromisoformat amb (JStr s) =
     (case fromisoformat amb s of None \<Rightarrow> Inl ValueError | Some ts \<Rightarrow> Inr ts)"
| "py_fromisoformat amb _ = Inl TypeError"

text \<open>
  The construction of the \<^verbatim>\<open>Evento\<close> at the head of \<^verbatim>\<open>_processar_evento\<close>:
  the arguments are evaluated in order and the first exception wins.
\<close>

definition criar_evento :: "ambiente \<Rightarrow> json \<Rightarrow> excecao + evento" where
  "criar_evento amb dados =
     (case getitem dados ''placa'' of Inl e \<Rightarrow> Inl e | Inr p \<Rightarrow>
      case getitem dados ''tipo'' of Inl e \<Rightarrow> Inl e | Inr tv \<Rightarrow>
      case TipoEvento tv of Inl e \<Rightarrow> Inl e | Inr t \<Rightarrow>
      case getitem dados ''timestamp'' of Inl e \<Rightarrow> Inl e | Inr tsv \<Rightarrow>
      case py_fromisoformat amb tsv of Inl e \<Rightarrow> Inl e | Inr ts \<Rightarrow>
      case getitem dados ''confianca_lpr'' of Inl e \<Rightarrow> Inl e | Inr c \<Rightarrow>
      case dict_get dados ''andar'' (JStr ''terreo'') of Inl e \<Rightarrow> Inl e | Inr a \<Rightarrow>
        Inr \<lparr>ident = None, placa = p, tipo = t, timestamp = ts, confianca_lpr = c,
             andar = a, status = PENDENTE, valor_calculado = None,
             tempo_permanencia_minutos = None, erro_descricao = None\<rparr>)"

subsection \<open>State\<close>

text \<open>
  The key under which a value is stored in a Python dictionary: numbers (and booleans,
  which are numbers) are keys by value, lists and objects cannot be keys (TypeError).
\<close>

datatype chave = KNone | KNum rat | KStr string

fun py_hash :: "json \<Rightarrow> excecao + chave" where
  "py_hash JNull = Inr KNone"
| "py_hash (JBool b) = Inr (KNum (if b then 1 else 0))"
| "py_hash (JNum n) = Inr (KNum n)"
| "py_hash (JStr s) = Inr (KStr s)"
| "py_hash (JList _) = Inl TypeError"
| "py_hash (JDict _) = Inl TypeError"

text \<open>
  \<open>banco\<close> is the database: the statements committed so far, oldest first. The list of
  connected clients is not part of the model (a connection adds itself on arrival and
  removes itself on leaving).
\<close>

record servidor_central =
  preco_por_minuto :: rat
  valor_minimo :: rat
  veiculos_estacionados :: "chave \<rightharpoonup> veiculo"
  estacionamento_fechado :: bool
  andar_bloqueado :: bool
  banco :: "comando_sql list"

text \<open>The event log: the rows of the table \<^verbatim>\<open>eventos\<close>.\<close>

fun eventos_de :: "comando_sql list \<Rightarrow> evento list" where
  "eventos_de [] = []"
| "eventos_de (InsertEvento e # cs) = e # eventos_de cs"
| "eventos_de (_ # cs) = eventos_de cs"

definition log_de_eventos :: "servidor_central \<Rightarrow> evento list" where
  "log_de_eventos st = eventos_de (banco st)"

text \<open>
  The record stored for an event carries the event's own request fields; the server may
  have filled in the status, the fee and the duration before storing it.
\<close>

definition registro_de :: "evento \<Rightarrow> evento \<Rightarrow> bool" where
  "registro_de ev e =
     (evento.placa e = evento.placa ev \<and> tipo e = tipo ev \<and> timestamp e = timestamp ev
      \<and> confianca_lpr e = confianca_lpr ev \<and> evento.andar e = evento.andar ev)"

text \<open>The vehicle records created: the rows inserted into the table \<^verbatim>\<open>veiculos\<close>.\<close>

fun veiculos_de :: "comando_sql list \<Rightarrow> veiculo list" where
  "veiculos_de [] = []"
| "veiculos_de (InsertVeiculo v # cs) = v # veiculos_de cs"
| "veiculos_de (_ # cs) = veiculos_de cs"

subsection \<open>Persistence\<close>

text \<open>Each of the three catches every exception of the database and goes on.\<close>

definition salvar_evento ::
  "ambiente \<Rightarrow> evento \<Rightarrow> servidor_central \<Rightarrow> evento_id \<times> servidor_central" where
  "salvar_evento amb ev st =
     (if sqlite_ok amb (InsertEvento ev)
      then (IdBanco, st\<lparr>banco := banco st @ [InsertEvento ev]\<rparr>)
      else (IdRelogio, st))"

definition salvar_veiculo :: "ambiente \<Rightarrow> veiculo \<Rightarrow> servidor_central \<Rightarrow> servidor_central" where
  "salvar_veiculo amb v st =
     (if sqlite_ok amb (InsertVeiculo v)
      then st\<lparr>banco := banco st @ [InsertVeiculo v]\<rparr>
      else st)"

definition atualizar_veiculo :: "ambiente \<Rightarrow> veiculo \<Rightarrow> servidor_central \<Rightarrow> servidor_central" where
  "atualizar_veiculo amb v st =
     (if sqlite_ok amb (UpdateVeiculo v)
      then st\<lparr>banco := banco st @ [UpdateVeiculo v]\<rparr>
      else st)"

subsection \<open>Processing an event\<close>

definition processar_entrada ::
  "ambiente \<Rightarrow> evento \<Rightarrow> servidor_central \<Rightarrow> (excecao + evento_resposta) \<times> servidor_central" where
  "processar_entrada amb ev st =
     (case py_hash (evento.placa ev) of
        Inl e \<Rightarrow> (Inl e, st)
      | Inr k \<Rightarrow>
          (case veiculos_estacionados st k of
             Some _ \<Rightarrow>
               (let (eid, st1) = salvar_evento amb ev st
                in (Inr \<lparr>evento_id = eid, sucesso = False, acao = ''negar_entrada'',
                         valor = None, tempo_permanencia = None,
                         mensagem = Some MsgVeiculoJaEstacionado\<rparr>, st1))
           | None \<Rightarrow>
               (let veiculo = Veiculo (evento.placa ev) (timestamp ev) (evento.andar ev);
                    st1 = st\<lparr>veiculos_estacionados := (veiculos_estacionados st)(k \<mapsto> veiculo)\<rparr>;
                    ev1 = ev\<lparr>evento.status := CONCLUIDO\<rparr>;
                    (eid, st2) = salvar_evento amb ev1 st1;
                    st3 = salvar_veiculo amb veiculo st2
                in (Inr \<lparr>evento_id = eid, sucesso = True, acao = ''abrir_cancela'',
                         valor = None, tempo_permanencia = None,
                         mensagem = Some MsgEntradaAutorizada\<rparr>, st3))))"

text \<open>
  \<^verbatim>\<open>ServidorCentral._processar_saida\<close>. When the duration cannot be computed the
  exception leaves the method after the parked vehicle's exit timestamp has been set.
\<close>

definition processar_saida_central ::
  "ambiente \<Rightarrow> evento \<Rightarrow> servidor_central \<Rightarrow> (excecao + evento_resposta) \<times> servidor_central" where
  "processar_saida_central amb ev st =
     (case py_hash (evento.placa ev) of
        Inl e \<Rightarrow> (Inl e, st)
      | Inr k \<Rightarrow>
          (case veiculos_estacionados st k of
             None \<Rightarrow>
               (let (eid, st1) = salvar_evento amb ev st
                in (Inr \<lparr>evento_id = eid, sucesso = False, acao = ''negar_saida'',
                         valor = None, tempo_permanencia = None,
                         mensagem = Some MsgVeiculoNaoEncontrado\<rparr>, st1))
           | Some veiculo \<Rightarrow>
               (case processar_saida veiculo (timestamp ev) (preco_por_minuto st) (valor_minimo st) of
                  (Inl e, v1) \<Rightarrow>
                    (Inl e, st\<lparr>veiculos_estacionados := (veiculos_estacionados st)(k \<mapsto> v1)\<rparr>)
                | (Inr resultado, v1) \<Rightarrow>
                    (let ev1 = ev\<lparr>evento.valor_calculado := Some (res_valor_calculado resultado),
                                  evento.tempo_permanencia_minutos :=
                                    Some (res_tempo_permanencia_minutos resultado),
                                  evento.status := CONCLUIDO\<rparr>;
                         st1 = st\<lparr>veiculos_estacionados := (veiculos_estacionados st)(k := None)\<rparr>;
                         (eid, st2) = salvar_evento amb ev1 st1;
                         st3 = atualizar_veiculo amb v1 st2
                     in (Inr \<lparr>evento_id = eid, sucesso = True, acao = ''cobrar_valor'',
                              valor = Some (res_valor_calculado resultado),
                              tempo_permanencia = Some (res_tempo_permanencia_minutos resultado),
                              mensagem = Some (MsgValorAPagar (res_valor_calculado resultado))\<rparr>,
                         st3)))))"

text \<open>The response of the \<^verbatim>\<open>except Exception\<close> branch of \<^verbatim>\<open>_processar_evento\<close>.\<close>

definition resposta_erro :: "excecao \<Rightarrow> evento_resposta" where
  "resposta_erro e =
     \<lparr>evento_id = IdRelogio, sucesso = False, acao = ''erro'', valor = None,
      tempo_permanencia = None, mensagem = Some (MsgExcecao e)\<rparr>"

definition processar_evento ::
  "ambiente \<Rightarrow> json \<Rightarrow> servidor_central \<Rightarrow> evento_resposta \<times> servidor_central" where
  "processar_evento amb dados st =
     (case criar_evento amb dados of
        Inl e \<Rightarrow> (resposta_erro e, st)
      | Inr ev \<Rightarrow>
          if estacionamento_fechado st
          then (\<lparr>evento_id = IdRelogio, sucesso = False, acao = ''negar_entrada'',
                 valor = None, tempo_permanencia = None,
                 mensagem = Some MsgEstacionamentoFechado\<rparr>, st)
          else if andar_bloqueado st \<and> evento.andar ev = JStr ''terreo''
          then (\<lparr>evento_id = IdRelogio, sucesso = False, acao = ''negar_entrada'',
                 valor = None, tempo_permanencia = None,
                 mensagem = Some MsgAndarBloqueado\<rparr>, st)
          else
            (case (if tipo ev = ENTRADA then processar_entrada amb ev st
                   else if tipo ev = SAIDA then processar_saida_central amb ev st
                   else (Inr \<lparr>evento_id = IdRelogio, sucesso = False, acao = ''erro'',
                              valor = None, tempo_permanencia = None,
                              mensagem = Some (MsgTipoNaoSuportado (tipo ev))\<rparr>, st)) of
               (Inl e, st') \<Rightarrow> (resposta_erro e, st')
             | (Inr r, st') \<Rightarrow> (r, st')))"

subsection \<open>Effect on the event log\<close>

text \<open>
  What a handler does to the log: nothing when it raises; otherwise its response is not
  the error response and it has tried to store one record of the event.
\<close>

definition efeito_no_log ::
  "ambiente \<Rightarrow> evento \<Rightarrow> servidor_central \<Rightarrow> (excecao + evento_resposta) \<times> servidor_central \<Rightarrow> bool"
  where
  "efeito_no_log amb ev st res =
     (case fst res of
        Inl x \<Rightarrow> log_de_eventos (snd res) = log_de_eventos st
      | Inr r \<Rightarrow>
          acao r \<noteq> ''erro''
          \<and> (\<exists>e. registro_de ev e
                \<and> log_de_eventos (snd res)
                    = (if sqlite_ok amb (InsertEvento e) then log_de_eventos st @ [e]
                       else log_de_eventos st)))"


subsection \<open>Serving a connection\<close>

text \<open>
  \<^verbatim>\<open>str.strip()\<close> removes the white space at both ends. A character is a code point
  below 256; the white space among those is \<open>U+0009\<close> to \<open>U+000D\<close>, \<open>U+001C\<close> to
  \<open>U+0020\<close>, \<open>U+0085\<close> and \<open>U+00A0\<close>.
\<close>

definition char_isspace :: "char \<Rightarrow> bool" where
  "char_isspace c =
     (let n = (of_char c :: nat)
      in (9 \<le> n \<and> n \<le> 13) \<or> (28 \<le> n \<and> n \<le> 32) \<or> n = 133 \<or> n = 160)"

definition py_strip :: "string \<Rightarrow> string" where
  "py_strip s = rev (dropWhile char_isspace (rev (dropWhile char_isspace s)))"

text \<open>
  \<^verbatim>\<open>_handle_cliente\<close>. The argument lists what the successive \<^verbatim>\<open>reader.read(1024)\<close>
  return; after the last one the peer has closed and the read returns no bytes. The
  result is the responses written to the connection, in order, and the server state
  when the connection is closed. A failure to decode the bytes leaves the loop through
  the outer handler; a failure to parse the JSON is caught inside the loop, which then
  reads again. Failures of the transport itself are not modelled.
\<close>

fun handle_cliente ::
  "ambiente \<Rightarrow> string list \<Rightarrow> servidor_central \<Rightarrow> evento_resposta list \<times> servidor_central" where
  "handle_cliente amb [] st = ([], st)"
| "handle_cliente amb (data # resto) st =
     (if data = [] then ([], st)
      else case decode_utf8 amb data of
             None \<Rightarrow> ([], st)
           | Some texto \<Rightarrow>
               (case json_loads amb (py_strip texto) of
                  None \<Rightarrow> handle_cliente amb resto st
                | Some dados \<Rightarrow>
                    (let (resposta, st1) = processar_evento amb dados st;
                         (respostas, st2) = handle_cliente amb resto st1
                     in (resposta # respostas, st2))))"


section \<open>The slot board (src/core/services/placar_service.py)\<close>

text \<open>
  \<open>vagas\<close> is the dictionary from slot number to its occupied flag, as the list of its
  items in insertion order.
\<close>

record placar_service =
  endereco_modbus :: int
  total_vagas :: int
  endereco_inicial_vagas :: int
  modo_simulacao :: bool
  vagas :: "(int \<times> bool) list"
  vagas_livres :: int

definition PlacarService :: "int \<Rightarrow> int \<Rightarrow> int \<Rightarrow> bool \<Rightarrow> placar_service" where
  "PlacarService endereco n_total inicial simulacao =
     \<lparr>endereco_modbus = endereco, total_vagas = n_total, endereco_inicial_vagas = inicial,
      modo_simulacao = simulacao, vagas = map (\<lambda>i. (i, False)) [0..n_total - 1],
      vagas_livres = n_total\<rparr>"

text \<open>
  Both methods end with \<^verbatim>\<open>asyncio.create_task\<close>, which raises RuntimeError when no
  event loop is running (\<open>loop\<close> false); the slot has been marked by then. The refresh
  of the display that the task performs changes no field.
\<close>

definition ocupar_vaga ::
  "bool \<Rightarrow> int \<Rightarrow> placar_service \<Rightarrow> (excecao + bool) \<times> placar_service" where
  "ocupar_vaga loop numero_vaga s =
     (if numero_vaga < 0 \<or> numero_vaga \<ge> total_vagas s then (Inr False, s)
      else case map_of (vagas s) numero_vaga of
             None \<Rightarrow> (Inl (KeyError (JNum (of_int numero_vaga))), s)
           | Some True \<Rightarrow> (Inr False, s)
           | Some False \<Rightarrow>
               (let s1 = s\<lparr>vagas := AList.update numero_vaga True (vagas s),
                            vagas_livres := vagas_livres s - 1\<rparr>
                in if loop then (Inr True, s1) else (Inl RuntimeError, s1)))"

definition liberar_vaga ::
  "bool \<Rightarrow> int \<Rightarrow> placar_service \<Rightarrow> (excecao + bool) \<times> placar_service" where
  "liberar_vaga loop numero_vaga s =
     (if numero_vaga < 0 \<or> numero_vaga \<ge> total_vagas s then (Inr False, s)
      else case map_of (vagas s) numero_vaga of
             None \<Rightarrow> (Inl (KeyError (JNum (of_int numero_vaga))), s)
           | Some False \<Rightarrow> (Inr False, s)
           | Some True \<Rightarrow>
               (let s1 = s\<lparr>vagas := AList.update numero_vaga False (vagas s),
                            vagas_livres := vagas_livres s + 1\<rparr>
                in if loop then (Inr True, s1) else (Inl RuntimeError, s1)))"

text \<open>The number of slots whose flag says occupied, and of those whose flag says free.\<close>

definition ocupadas :: "placar_service \<Rightarrow> int" where
  "ocupadas s = int (length (filter (\<lambda>(n, ocupada). ocupada) (vagas s)))"

definition livres :: "placar_service \<Rightarrow> int" where
  "livres s = int (length (filter (\<lambda>(n, ocupada). \<not> ocupada) (vagas s)))"

text \<open>
  A call of one of the two methods, with whether an event loop is running, and the board
  after a sequence of calls.
\<close>

datatype chamada = Ocupar bool int | Liberar bool int

fun chamar :: "chamada \<Rightarrow> placar_service \<Rightarrow> (excecao + bool) \<times> placar_service" where
  "chamar (Ocupar loop n) s = ocupar_vaga loop n s"
| "chamar (Liberar loop n) s = liberar_vaga loop n s"

fun executar :: "chamada list \<Rightarrow> placar_service \<Rightarrow> placar_service" where
  "executar [] s = s"
| "executar (c # cs) s = executar cs (snd (chamar c s))"


section \<open>Plate validation (src/core/services/lpr_service.py)\<close>

text \<open>
  A Python string is a list of code points; the model has the code points below 256.
  Among those \<^verbatim>\<open>str.isalpha\<close> holds of the ASCII letters of both cases and of
  \<open>U+00AA\<close>, \<open>U+00B5\<close>, \<open>U+00BA\<close>, \<open>U+00C0\<close> to \<open>U+00D6\<close>, \<open>U+00D8\<close> to \<open>U+00F6\<close> and
  \<open>U+00F8\<close> to \<open>U+00FF\<close>; \<^verbatim>\<open>str.isdigit\<close> holds of the ASCII digits and of the
  superscripts \<open>U+00B2\<close>, \<open>U+00B3\<close> and \<open>U+00B9\<close>. Both are false of the empty string.
\<close>

definition char_isalpha :: "char \<Rightarrow> bool" where
  "char_isalpha c =
     (let n = (of_char c :: nat)
      in (65 \<le> n \<and> n \<le> 90) \<or> (97 \<le> n \<and> n \<le> 122) \<or> n = 170 \<or> n = 181 \<or> n = 186
         \<or> (192 \<le> n \<and> n \<le> 214) \<or> (216 \<le> n \<and> n \<le> 246) \<or> 248 \<le> n)"

definition char_isdigit :: "char \<Rightarrow> bool" where
  "char_isdigit c =
     (let n = (of_char c :: nat)
      in (48 \<le> n \<and> n \<le> 57) \<or> n = 178 \<or> n = 179 \<or> n = 185)"

definition str_isalpha :: "string \<Rightarrow> bool" where
  "str_isalpha s = (s \<noteq> [] \<and> list_all char_isalpha s)"

definition str_isdigit :: "string \<Rightarrow> bool" where
  "str_isdigit s = (s \<noteq> [] \<and> list_all char_isdigit s)"

text \<open>\<open>texto\<close> is the parameter \<^verbatim>\<open>placa\<close>; the parameter \<^verbatim>\<open>confianca_minima\<close> is never read.\<close>

definition validar_placa :: "string \<Rightarrow> rat \<Rightarrow> bool" where
  "validar_placa texto confianca_minima =
     (if texto = [] then False
      else if length texto \<noteq> 7 then False
      else if \<not> str_isalpha (take 3 texto) then False
      else if \<not> str_isdigit (drop 3 texto) then False
      else True)"

text \<open>
  The canonical plate format as the specification words it: exactly three uppercase
  letters followed by exactly four digits.
\<close>

definition formato_canonico :: "string \<Rightarrow> bool" where
  "formato_canonico texto =
     (length texto = 7
      \<and> list_all (\<lambda>c. 65 \<le> (of_char c :: nat) \<and> (of_char c :: nat) \<le> 90) (take 3 texto)
      \<and> list_all (\<lambda>c. 48 \<le> (of_char c :: nat) \<and> (of_char c :: nat) \<le> 57) (drop 3 texto))"


section \<open>Example inputs\<close>

text \<open>
  A request as the lane controller sends it, for the plate \<open>ABC1234\<close> on the ground
  floor, with the given kind and timestamp.
\<close>

definition dados_exemplo :: "string \<Rightarrow> string \<Rightarrow> json" where
  "dados_exemplo t ts =
     JDict [(''placa'', JStr ''ABC1234''), (''tipo'', JStr t), (''timestamp'', JStr ts),
            (''confianca_lpr'', JNum (95 / 100)), (''andar'', JStr ''terreo'')]"

text \<open>The bytes of a malformed message and of a message that stands for an entry request.\<close>

definition msg_malformada :: string where
  "msg_malformada = '' {'' @ [CHR 0x22] @ ''placa'' @ [CHR 0x22] @ '':''"

definition msg_entrada :: string where
  "msg_entrada = ''{'' @ [CHR 0x22] @ ''placa'' @ [CHR 0x22] @ '': '' @ [CHR 0x22]
     @ ''ABC1234'' @ [CHR 0x22] @ '', ...}'' @ [CHR 0x0A]"

text \<open>
  An environment in which the database accepts every statement, two timestamps thirty
  minutes apart are known, ASCII bytes decode to themselves, and the only text that
  parses as JSON is the entry request above.
\<close>

definition amb_exemplo :: ambiente where
  "amb_exemplo =
     \<lparr>fromisoformat = (\<lambda>s. if s = ''2024-01-01T10:00:00'' then Some (Naive 0)
                            else if s = ''2024-01-01T10:30:00'' then Some (Naive 1800000000)
                            else None),
      sqlite_ok = (\<lambda>c. True),
      decode_utf8 = (\<lambda>b. if list_all (\<lambda>c. (of_char c :: nat) < 128) b then Some b else None),
      json_loads = (\<lambda>s. if s = py_strip msg_entrada
                         then Some (dados_exemplo ''entrada'' ''2024-01-01T10:00:00'')
                         else None)\<rparr>"

text \<open>The default price per minute: the float that \<^verbatim>\<open>float("0.15")\<close> returns.\<close>

definition preco_padrao :: rat where
  "preco_padrao = fl (15 / 100)"

text \<open>A server with the default prices, the given closed flag and parked vehicles.\<close>

definition servidor_exemplo :: "bool \<Rightarrow> (chave \<rightharpoonup> veiculo) \<Rightarrow> servidor_central" where
  "servidor_exemplo fechado estacionados =
     \<lparr>preco_por_minuto = preco_padrao, valor_minimo = 2, veiculos_estacionados = estacionados,
      estacionamento_fechado = fechado, andar_bloqueado = False, banco = []\<rparr>"

definition estacionados_exemplo :: "chave \<rightharpoonup> veiculo" where
  "estacionados_exemplo =
     [KStr ''ABC1234'' \<mapsto> Veiculo (JStr ''ABC1234'') (Naive 0) (JStr ''terreo'')]"

section \<open>Floating point rounding\<close>

lemma expoente_bounds:
  assumes "0 < x"
  shows "2 powi expoente x \<le> x \<and> x < 2 powi (expoente x + 1)"
proof (cases "1 \<le> x")
  case True
  define n where "n = \<lfloor>x\<rfloor>"
  have n: "0 < n" using True by (simp add: n_def)
  have e: "expoente x = bitlen n - 1" using True by (simp add: expoente_def n_def)
  from bitlen_bounds [OF n]
  have lo: "2 ^ nat (bitlen n - 1) \<le> n" and hi: "n < 2 ^ nat (bitlen n)" by simp_all
  have b1: "1 \<le> bitlen n" using n by (simp add: bitlen_alt_def)
  have "(2::rat) powi (bitlen n - 1) = 2 ^ nat (bitlen n - 1)"
    using b1 by (simp add: power_int_def)
  also have "\<dots> \<le> of_int n" using lo by (simp only: numeral_power_le_of_int_cancel_iff)
  also have "\<dots> \<le> x" by (simp add: n_def)
  finally have A: "2 powi expoente x \<le> x" by (simp add: e)
  have "n + 1 \<le> 2 ^ nat (bitlen n)" using hi by simp
  then have "(of_int (n + 1) :: rat) \<le> 2 ^ nat (bitlen n)"
    by (simp only: of_int_le_numeral_power_cancel_iff)
  moreover have "x < of_int (n + 1)" using floor_correct [of x] by (simp add: n_def)
  ultimately have "x < 2 ^ nat (bitlen n)" by (rule less_le_trans [rotated])
  also have "\<dots> = 2 powi (bitlen n)" using b1 by (simp add: power_int_def)
  finally have B: "x < 2 powi (expoente x + 1)" by (simp add: e)
  from A B show ?thesis ..
next
  case False
  then have x1: "x < 1" by simp
  define n where "n = \<lceil>1 / x\<rceil>"
  have inv: "1 < 1 / x" using assms x1 by simp
  have n2: "2 \<le> n" using inv by (simp add: n_def le_ceiling_iff)
  have e: "expoente x = - bitlen (n - 1)" using False by (simp add: expoente_def n_def)
  have pos: "0 < n - 1" using n2 by simp
  from bitlen_bounds [OF pos]
  have lo: "2 ^ nat (bitlen (n - 1) - 1) \<le> n - 1" and hi: "n - 1 < 2 ^ nat (bitlen (n - 1))"
    by simp_all
  have b1: "1 \<le> bitlen (n - 1)" using pos by (simp add: bitlen_alt_def)
  have up: "1 / x \<le> of_int n" by (simp add: n_def)
  have dn: "of_int (n - 1) < 1 / x" using ceiling_correct [of "1 / x"] by (simp add: n_def)
  have "n \<le> 2 ^ nat (bitlen (n - 1))" using hi by simp
  then have "(of_int n :: rat) \<le> 2 ^ nat (bitlen (n - 1))" by simp
  with up have "1 / x \<le> 2 ^ nat (bitlen (n - 1))" by (rule order_trans)
  then have "1 / 2 ^ nat (bitlen (n - 1)) \<le> x"
    using assms by (simp add: field_simps)
  moreover have "(2::rat) powi (- bitlen (n - 1)) = 1 / 2 ^ nat (bitlen (n - 1))"
    using b1 by (simp add: power_int_def field_simps)
  ultimately have A: "2 powi expoente x \<le> x" by (simp add: e)
  have "(2::rat) ^ nat (bitlen (n - 1) - 1) \<le> of_int (n - 1)"
    using lo by (simp only: numeral_power_le_of_int_cancel_iff)
  from this dn have "(2::rat) ^ nat (bitlen (n - 1) - 1) < 1 / x" by (rule le_less_trans)
  then have "x < 1 / 2 ^ nat (bitlen (n - 1) - 1)"
    using assms by (simp add: field_simps)
  moreover have "(2::rat) powi (- bitlen (n - 1) + 1) = 1 / 2 ^ nat (bitlen (n - 1) - 1)"
  proof -
    have "- bitlen (n - 1) + 1 = - (bitlen (n - 1) - 1)" by simp
    then have "(2::rat) powi (- bitlen (n - 1) + 1) = inverse (2 powi (bitlen (n - 1) - 1))"
      by (simp only: power_int_minus)
    also have "\<dots> = 1 / 2 ^ nat (bitlen (n - 1) - 1)"
      using b1 by (simp add: power_int_def field_simps)
    finally show ?thesis .
  qed
  ultimately have B: "x < 2 powi (expoente x + 1)" by (simp add: e)
  from A B show ?thesis ..
qed

lemma expoente_less:
  assumes "0 < x" and "x < 2 powi n"
  shows "expoente x < n"
proof (rule ccontr)
  assume "\<not> expoente x < n"
  then have "n \<le> expoente x" by simp
  then have "(2::rat) powi n \<le> 2 powi expoente x" by (rule power_int_increasing) simp
  also have "\<dots> \<le> x" using expoente_bounds [OF assms(1)] ..
  finally show False using assms(2) by simp
qed

lemma round_half_even_erro: "\<bar>of_int (round_half_even y) - y\<bar> \<le> 1 / 2"
proof -
  define f where "f = \<lfloor>y\<rfloor>"
  have a: "of_int f \<le> y" and b: "y < of_int f + 1"
    using floor_correct [of y] by (simp_all add: f_def)
  have "round_half_even y =
          (if y - of_int f < 1 / 2 then f
           else if 1 / 2 < y - of_int f then f + 1 else if even f then f else f + 1)"
    by (simp add: round_half_even_def Let_def f_def)
  with a b show ?thesis
    by (auto simp add: abs_if)
qed

lemma round_half_even_of_int: "round_half_even (of_int n) = n"
  by (simp add: round_half_even_def)

lemma fl_pos:
  assumes "0 < x"
  shows "fl x = of_int (round_half_even (x / 2 powi (expoente x - 52))) * 2 powi (expoente x - 52)"
  using assms by (simp add: fl_def Let_def)

lemma fl_erro:
  assumes "0 < x"
  shows "\<bar>fl x - x\<bar> \<le> 2 powi (expoente x - 53)"
proof -
  define s :: rat where "s = 2 powi (expoente x - 52)"
  have s: "0 < s" by (simp add: s_def)
  have "fl x - x = (of_int (round_half_even (x / s)) - x / s) * s"
    using s by (simp add: fl_pos [OF assms] s_def [symmetric] field_simps)
  then have "\<bar>fl x - x\<bar> = \<bar>of_int (round_half_even (x / s)) - x / s\<bar> * s"
    using s by (simp add: abs_mult)
  also have "\<dots> \<le> (1 / 2) * s"
    using s round_half_even_erro [of "x / s"] by (simp only: mult_le_cancel_right_pos)
  also have "\<dots> = 2 powi (expoente x - 53)"
  proof -
    have "(2::rat) powi ((expoente x - 53) + 1) = 2 powi (expoente x - 53) * 2 powi 1"
      by (rule power_int_add) simp
    moreover have "(expoente x - 53) + 1 = expoente x - 52" by simp
    ultimately have "s = 2 powi (expoente x - 53) * 2"
      by (simp add: s_def)
    then show ?thesis by simp
  qed
  finally show ?thesis .
qed

lemma fl_of_int:
  assumes "0 \<le> k" and "k < 2 ^ 53"
  shows "fl (of_int k) = of_int k"
proof (cases "k = 0")
  case True
  then show ?thesis by (simp add: fl_def)
next
  case False
  with assms(1) have pos: "0 < (of_int k :: rat)" by simp
  have "(of_int k :: rat) < 2 ^ 53" using assms(2) by (simp only: of_int_less_numeral_power_cancel_iff)
  also have "(2::rat) ^ 53 = 2 powi 53" by (simp add: power_int_def)
  finally have "expoente (of_int k) < 53" by (rule expoente_less [OF pos])
  then have le: "0 \<le> 52 - expoente (of_int k)" by simp
  define j where "j = nat (52 - expoente (of_int k))"
  have "expoente (of_int k) - 52 = - int j" using le by (simp add: j_def)
  then have "(2::rat) powi (expoente (of_int k) - 52) = inverse (2 powi int j)"
    by (simp only: power_int_minus)
  then have s: "(2::rat) powi (expoente (of_int k) - 52) = 1 / 2 ^ j"
    by (simp only: power_int_of_nat inverse_eq_divide)
  have "of_int k / (1 / 2 ^ j) = (of_int (k * 2 ^ j) :: rat)" by simp
  then have "round_half_even (of_int k / (1 / 2 ^ j)) = k * 2 ^ j"
    by (simp only: round_half_even_of_int)
  then show ?thesis
    by (simp add: fl_pos [OF pos] s)
qed

lemma fl_minus: "fl (- x) = - fl x"
  by (simp add: fl_def Let_def)

lemma fl_of_int_abs:
  assumes "\<bar>k\<bar> < 2 ^ 53"
  shows "fl (of_int k) = of_int k"
proof (cases "0 \<le> k")
  case True
  with assms have "k < 2 ^ 53" by simp
  with True show ?thesis by (rule fl_of_int)
next
  case False
  with assms have "0 \<le> - k" and "- k < 2 ^ 53" by simp_all
  then have "fl (of_int (- k)) = of_int (- k)" by (rule fl_of_int)
  then have "fl (- of_int k) = - of_int k" by simp
  then show ?thesis by (simp only: fl_minus neg_equal_iff_equal)
qed

lemma pos_mult_pos_ge_aux:
  fixes a t :: rat
  assumes "0 < a * t" and "0 < t"
  shows "0 < a"
  using assms by (simp add: zero_less_mult_iff)

lemma neg_mult_pos_aux:
  fixes a t :: rat
  assumes "a * t < 0" and "0 < t"
  shows "a < 0"
  using assms by (simp add: mult_less_0_iff)

lemma fl_erro_abaixo:
  assumes "0 < x" and "x < 2 powi n"
  shows "\<bar>fl x - x\<bar> \<le> 2 powi (n - 54)"
proof -
  have "expoente x < n" using assms by (rule expoente_less)
  then have "expoente x - 53 \<le> n - 54" by simp
  then have "(2::rat) powi (expoente x - 53) \<le> 2 powi (n - 54)"
    by (rule power_int_increasing) simp
  with fl_erro [OF assms(1)] show ?thesis by (rule order_trans)
qed

lemma fl_menos_int:
  assumes "0 < x" and "expoente x \<le> 52"
  shows "\<exists>J. fl x - of_int a = of_int J * 2 powi (expoente x - 52)"
proof -
  define j where "j = nat (52 - expoente x)"
  have "expoente x - 52 = - int j" using assms(2) by (simp add: j_def)
  then have "(2::rat) powi (expoente x - 52) = inverse (2 powi int j)"
    by (simp only: power_int_minus)
  then have s: "(2::rat) powi (expoente x - 52) = 1 / 2 ^ j"
    by (simp only: power_int_of_nat inverse_eq_divide)
  define M where "M = round_half_even (x / 2 powi (expoente x - 52))"
  have "fl x = of_int M * (1 / 2 ^ j)"
    using fl_pos [OF assms(1)] by (simp add: M_def s)
  moreover have "(of_int a :: rat) = of_int (a * 2 ^ j) * (1 / 2 ^ j)" by simp
  ultimately have "fl x - of_int a = of_int (M - a * 2 ^ j) * (1 / 2 ^ j)"
    by (simp only: of_int_diff left_diff_distrib)
  then show ?thesis unfolding s by blast
qed

lemma fl_acima_de_int:
  assumes "0 < x" and "expoente x \<le> 52" and "of_int a < fl x"
  shows "2 powi (expoente x - 52) \<le> fl x - of_int a"
proof -
  obtain J where J: "fl x - of_int a = of_int J * 2 powi (expoente x - 52)"
    using fl_menos_int [OF assms(1,2)] by blast
  have s: "(0::rat) < 2 powi (expoente x - 52)" by simp
  from assms(3) J have "0 < of_int J * (2::rat) powi (expoente x - 52)" by simp
  then have "0 < (of_int J :: rat)" using s by (rule pos_mult_pos_ge_aux)
  then have "1 \<le> J" by simp
  then have "(1::rat) \<le> of_int J" by simp
  then have "1 * 2 powi (expoente x - 52) \<le> of_int J * (2::rat) powi (expoente x - 52)"
    using s by (simp only: mult_le_cancel_right_pos)
  with J show ?thesis by simp
qed

lemma fl_abaixo_de_int:
  assumes "0 < x" and "expoente x \<le> 52" and "fl x < of_int a"
  shows "2 powi (expoente x - 52) \<le> of_int a - fl x"
proof -
  obtain J where J: "fl x - of_int a = of_int J * 2 powi (expoente x - 52)"
    using fl_menos_int [OF assms(1,2)] by blast
  have s: "(0::rat) < 2 powi (expoente x - 52)" by simp
  from assms(3) J have "of_int J * (2::rat) powi (expoente x - 52) < 0" by simp
  then have "(of_int J :: rat) < 0" using s by (rule neg_mult_pos_aux)
  then have "J \<le> - 1" by simp
  then have "(of_int J :: rat) \<le> - 1" by (metis of_int_le_iff of_int_minus of_int_1)
  then have "of_int J * (2::rat) powi (expoente x - 52) \<le> (- 1) * 2 powi (expoente x - 52)"
    using s by (simp only: mult_le_cancel_right_pos)
  with J show ?thesis by simp
qed

lemma total_seconds_fl: "total_seconds d = fl (of_int d / 1000000)"
  by (simp add: total_seconds_def int_truediv_def)

lemma float_of_int_60: "float_of_int 60 = 60"
proof -
  have "fl (of_int 60) = of_int 60" by (rule fl_of_int) simp_all
  then show ?thesis by (simp add: float_of_int_def)
qed

section \<open>Duration\<close>

lemma py_int_entre:
  assumes "of_int k \<le> x" and "x < of_int k + 1" and "0 \<le> k"
  shows "py_int x = k"
proof -
  have "0 \<le> x" using assms(1,3) by (meson of_int_0_le_iff order_trans)
  moreover have "\<lfloor>x\<rfloor> = k" using assms(1,2) by (simp add: floor_unique)
  ultimately show ?thesis by (simp add: py_int_def)
qed

lemma minutos_multiplo:
  assumes "0 \<le> k" and "60 * k < 2 ^ 53"
  shows "(if 0 < py_mod (total_seconds (60000000 * k)) 60
         then py_int (fl (total_seconds (60000000 * k) / 60)) + 1
         else py_int (fl (total_seconds (60000000 * k) / 60))) = k"
proof -
  have k53: "k < 2 ^ 53" using assms by simp
  have flk: "fl (of_int k) = of_int k" using assms(1) k53 by (rule fl_of_int)
  have "0 \<le> 60 * k" using assms(1) by simp
  then have fl60: "fl (of_int (60 * k)) = of_int (60 * k)" using assms(2) by (rule fl_of_int)
  have "(of_int (60000000 * k) :: rat) / 1000000 = of_int (60 * k)" by simp
  then have "total_seconds (60000000 * k) = of_int (60 * k)"
    by (simp only: total_seconds_fl fl60)
  then have ts: "total_seconds (60000000 * k) = 60 * of_int k" by simp
  have m: "py_mod (60 * of_int k) 60 = 0"
    using assms(1) by (simp add: py_mod_def py_int_def)
  have i: "py_int (of_int k) = k" using assms(1) by (simp add: py_int_def)
  show ?thesis
    by (simp add: ts flk m i)
qed

lemma abs_diff_le_D:
  fixes a b c :: rat
  assumes "\<bar>a - b\<bar> \<le> c"
  shows "b - c \<le> a" and "a \<le> b + c"
  using assms by linarith+

lemma minutos_resto:
  assumes "0 \<le> k" and "0 < r" and "r < 60000000"
    and "60000000 * k + r < 2 ^ 34 * 1000000"
  shows "(if 0 < py_mod (total_seconds (60000000 * k + r)) 60
         then py_int (fl (total_seconds (60000000 * k + r) / 60)) + 1
         else py_int (fl (total_seconds (60000000 * k + r) / 60))) = k + 1"
proof -
  define y :: rat where "y = of_int (60000000 * k + r) / 1000000"
  define K :: rat where "K = of_int k"
  have K0: "0 \<le> K" using assms(1) by (simp add: K_def)
  have "(1::rat) \<le> of_int r" using assms(2) by simp
  then have ylow: "60 * K + 1 / 1000000 \<le> y" by (simp add: y_def K_def field_simps)
  have "r \<le> 59999999" using assms(3) by simp
  then have "(of_int r :: rat) \<le> 59999999" by simp
  then have yup: "y \<le> 60 * K + 60 - 1 / 1000000" by (simp add: y_def K_def field_simps)
  have ypos: "0 < y" using ylow K0 by simp
  have "(of_int (60000000 * k + r) :: rat) < of_int (2 ^ 34 * 1000000)"
    using assms(4) by (simp only: of_int_less_iff)
  then have "y < 2 ^ 34" by (simp add: y_def)
  also have "(2::rat) ^ 34 = 2 powi 34" by (simp add: power_int_def)
  finally have y34: "y < 2 powi 34" .
  define e where "e = expoente y"
  have e34: "e < 34" unfolding e_def using ypos y34 by (rule expoente_less)
  then have e52: "expoente y \<le> 52" by (simp add: e_def)
  define ts where "ts = fl y"
  have ts_eq: "total_seconds (60000000 * k + r) = ts"
    by (simp only: total_seconds_fl ts_def y_def)
  have "\<bar>ts - y\<bar> \<le> 2 powi (34 - 54)"
    unfolding ts_def using ypos y34 by (rule fl_erro_abaixo)
  also have "(2::rat) powi (34 - 54) = 1 / 1048576" by (simp add: power_int_def power_divide)
  finally have err1: "\<bar>ts - y\<bar> \<le> 1 / 1048576" .
  have L: "60 * K < ts" using abs_diff_le_D(1) [OF err1] ylow by linarith
  have U: "ts < 60 * K + 60" using abs_diff_le_D(2) [OF err1] yup by linarith
  have tspos: "0 < ts" using L K0 by simp
  define s1 :: rat where "s1 = 2 powi (e - 52)"
  have "of_int (60 * k) < fl y" using L by (simp add: ts_def K_def)
  with ypos e52 have "2 powi (expoente y - 52) \<le> fl y - of_int (60 * k)"
    by (rule fl_acima_de_int)
  then have g1: "s1 \<le> ts - 60 * K" by (simp add: s1_def e_def ts_def K_def)
  have "fl y < of_int (60 * k + 60)" using U by (simp add: ts_def K_def)
  with ypos e52 have "2 powi (expoente y - 52) \<le> of_int (60 * k + 60) - fl y"
    by (rule fl_abaixo_de_int)
  then have g2: "s1 \<le> 60 * K + 60 - ts" by (simp add: s1_def e_def ts_def K_def)
  define t :: rat where "t = 2 powi (e - 4)"
  define w :: rat where "w = 2 powi (e - 58)"
  have wpos: "0 < w" by (simp add: w_def)
  have tpos: "0 < t" by (simp add: t_def)
  have "(2::rat) powi ((e - 4) + 5) = 2 powi (e - 4) * 2 powi 5" by (rule power_int_add) simp
  moreover have "(e - 4) + 5 = e + 1" by simp
  ultimately have p1: "(2::rat) powi (e + 1) = 32 * t" by (simp add: t_def power_int_def)
  have "e - 53 \<le> e - 4" by simp
  then have p2: "(2::rat) powi (e - 53) \<le> t"
    unfolding t_def by (rule power_int_increasing) simp
  have "(2::rat) powi ((e - 58) + 6) = 2 powi (e - 58) * 2 powi 6" by (rule power_int_add) simp
  moreover have "(e - 58) + 6 = e - 52" by simp
  ultimately have p3: "s1 = 64 * w" by (simp add: s1_def w_def power_int_def)
  have "y < 2 powi (e + 1)" using expoente_bounds [OF ypos] by (simp add: e_def)
  then have y32: "y < 32 * t" by (simp only: p1)
  have "\<bar>ts - y\<bar> \<le> 2 powi (e - 53)"
    unfolding ts_def e_def using ypos by (rule fl_erro)
  then have "\<bar>ts - y\<bar> \<le> t" using p2 by (rule order_trans)
  then have "ts \<le> y + t" by (rule abs_diff_le_D(2))
  with y32 tpos have "ts < 60 * t" by linarith
  then have x2t: "ts / 60 < 2 powi (e - 4)" by (simp add: t_def)
  have x2pos: "0 < ts / 60" using tspos by simp
  have "\<bar>fl (ts / 60) - ts / 60\<bar> \<le> 2 powi (e - 4 - 54)"
    using x2pos x2t by (rule fl_erro_abaixo)
  then have err2: "\<bar>fl (ts / 60) - ts / 60\<bar> \<le> w" by (simp add: w_def)
  define x2 where "x2 = ts / 60"
  have ts60: "ts = 60 * x2" by (simp add: x2_def)
  have a1: "K + 64 * w / 60 \<le> x2" using g1 p3 unfolding ts60 by linarith
  have a2: "x2 \<le> K + 1 - 64 * w / 60" using g2 p3 unfolding ts60 by linarith
  have q1: "K \<le> fl (ts / 60)"
    using abs_diff_le_D(1) [OF err2] a1 wpos unfolding x2_def [symmetric] by linarith
  have q2: "fl (ts / 60) < K + 1"
    using abs_diff_le_D(2) [OF err2] a2 wpos unfolding x2_def [symmetric] by linarith
  have i1: "py_int (fl (ts / 60)) = k"
    using q1 q2 assms(1) unfolding K_def by (rule py_int_entre)
  have "K \<le> ts / 60" and "ts / 60 < K + 1" using L U unfolding ts60 by simp_all
  then have i2: "py_int (ts / 60) = k"
    using assms(1) unfolding K_def by (rule py_int_entre)
  have "py_mod ts 60 = ts - 60 * K"
    using L by (simp add: py_mod_def i2 K_def)
  then have m: "0 < py_mod ts 60" using L by simp
  show ?thesis
    by (simp add: ts_eq i1 m)
qed


lemma calcular_tempo_permanencia_delta:
  assumes "dt_sub ts_saida (veiculo.timestamp_entrada v) = Inr d"
  shows "calcular_tempo_permanencia v ts_saida
           = Inr (if 0 < py_mod (total_seconds d) 60
                  then py_int (fl (total_seconds d / 60)) + 1
                  else py_int (fl (total_seconds d / 60)))"
  using assms
  by (simp add: calcular_tempo_permanencia_def Let_def float_of_int_60 float_truediv_def)

lemma ceiling_minutos:
  assumes "0 \<le> r" and "r < 60000000"
  shows "\<lceil>(of_int (60000000 * k + r) / 1000000 :: rat) / 60\<rceil> = (if r = 0 then k else k + 1)"
proof (cases "r = 0")
  case True
  have "(of_int (60000000 * k) / 1000000 :: rat) / 60 = of_int k" by simp
  then have "\<lceil>(of_int (60000000 * k) / 1000000 :: rat) / 60\<rceil> = k"
    by (simp only: ceiling_of_int)
  with True show ?thesis by simp
next
  case False
  with assms(1) have "(0::rat) < of_int r" by simp
  moreover have "(of_int r :: rat) < 60000000" using assms(2) by simp
  moreover have "(of_int (60000000 * k + r) / 1000000 :: rat) / 60 = of_int k + of_int r / 60000000"
    by (simp add: field_simps)
  ultimately have "of_int (k + 1) - 1 < (of_int (60000000 * k + r) / 1000000 :: rat) / 60"
    and "(of_int (60000000 * k + r) / 1000000 :: rat) / 60 \<le> of_int (k + 1)"
    by simp_all
  then have "\<lceil>(of_int (60000000 * k + r) / 1000000 :: rat) / 60\<rceil> = k + 1"
    by (rule ceiling_unique)
  with False show ?thesis by simp
qed

text \<open>
  The minutes computed from a difference of \<open>d\<close> microseconds, \<open>0 \<le> d < 2\<^sup>3\<^sup>4\<close> seconds:
  the rounding of the two divisions does not reach the result.
\<close>

lemma minutos_ceiling:
  assumes "0 \<le> d" and "d < 2 ^ 34 * 1000000"
  shows "(if 0 < py_mod (total_seconds d) 60
          then py_int (fl (total_seconds d / 60)) + 1
          else py_int (fl (total_seconds d / 60)))
         = \<lceil>(of_int d / 1000000 :: rat) / 60\<rceil>"
proof -
  define k where "k = d div 60000000"
  define r where "r = d mod 60000000"
  have d: "d = 60000000 * k + r" by (simp add: k_def r_def)
  have r0: "0 \<le> r" and r1: "r < 60000000" by (simp_all add: r_def)
  have k0: "0 \<le> k" using assms(1) by (simp add: k_def pos_imp_zdiv_nonneg_iff)
  have c: "\<lceil>(of_int d / 1000000 :: rat) / 60\<rceil> = (if r = 0 then k else k + 1)"
    unfolding d using r0 r1 by (rule ceiling_minutos)
  show ?thesis
  proof (cases "r = 0")
    case True
    have "60000000 * k < 2 ^ 34 * 1000000" using assms(2) d True by simp
    then have "60 * k < 2 ^ 53" by simp
    with k0 have "(if 0 < py_mod (total_seconds (60000000 * k)) 60
         then py_int (fl (total_seconds (60000000 * k) / 60)) + 1
         else py_int (fl (total_seconds (60000000 * k) / 60))) = k"
      by (rule minutos_multiplo)
    moreover have "60000000 * k = d" using d True by simp
    ultimately have "(if 0 < py_mod (total_seconds d) 60
         then py_int (fl (total_seconds d / 60)) + 1
         else py_int (fl (total_seconds d / 60))) = k"
      by (simp only:)
    moreover have "\<lceil>(of_int d / 1000000 :: rat) / 60\<rceil> = k" using c True by simp
    ultimately show ?thesis by (simp only:)
  next
    case False
    with r0 have "0 < r" by simp
    moreover have "60000000 * k + r < 2 ^ 34 * 1000000" using assms(2) d by simp
    ultimately have "(if 0 < py_mod (total_seconds (60000000 * k + r)) 60
         then py_int (fl (total_seconds (60000000 * k + r) / 60)) + 1
         else py_int (fl (total_seconds (60000000 * k + r) / 60))) = k + 1"
      using k0 r1 by (intro minutos_resto)
    then have "(if 0 < py_mod (total_seconds d) 60
         then py_int (fl (total_seconds d / 60)) + 1
         else py_int (fl (total_seconds d / 60))) = k + 1"
      by (simp only: d [symmetric])
    moreover have "\<lceil>(of_int d / 1000000 :: rat) / 60\<rceil> = k + 1" using c False by simp
    ultimately show ?thesis by (simp only:)
  qed
qed

lemma processar_saida_tempo:
  assumes "calcular_tempo_permanencia v ts = Inr t"
  shows "\<exists>r v'. processar_saida v ts preco minimo = (Inr r, v')
           \<and> res_tempo_permanencia_minutos r = t
           \<and> veiculo.tempo_permanencia_minutos v' = Some t"
proof -
  have "calcular_tempo_permanencia (v\<lparr>veiculo.timestamp_saida := Some ts\<rparr>) ts
          = calcular_tempo_permanencia v ts"
    by (simp add: calcular_tempo_permanencia_def)
  with assms have "calcular_tempo_permanencia (v\<lparr>veiculo.timestamp_saida := Some ts\<rparr>) ts = Inr t"
    by simp
  then show ?thesis by (simp add: processar_saida_def Let_def)
qed

text \<open>
  C1, as the claim states it, fails: a vehicle that entered on 1400-01-01 and leaves
  one microsecond after 2024-01-01 00:00:00 has stayed 328191840 minutes and one
  microsecond, whose ceiling is 328191841, and is given 328191840 minutes. The elapsed
  seconds, held in a float, have lost the microsecond.
\<close>

theorem calcular_tempo_permanencia_counterexample:
  "calcular_tempo_permanencia
     (Veiculo (JStr ''ABC1234'') (Naive (- 17987443200000000)) (JStr ''terreo''))
     (Naive 1704067200000001) = Inr 328191840
   \<and> \<lceil>(of_int (1704067200000001 - (- 17987443200000000)) / 1000000 :: rat) / 60\<rceil>
       = 328191841"
proof
  have d: "dt_sub (Naive 1704067200000001)
             (veiculo.timestamp_entrada
               (Veiculo (JStr ''ABC1234'') (Naive (- 17987443200000000)) (JStr ''terreo'')))
           = Inr 19691510400000001"
    by (simp add: Veiculo_def)
  have ts: "total_seconds 19691510400000001 = 19691510400"
    by code_simp
  have q: "fl (19691510400 / 60) = 328191840"
    by code_simp
  have i: "py_int 328191840 = 328191840" by (simp add: py_int_def)
  have m: "py_mod 19691510400 60 = 0"
    by (simp add: py_mod_def py_int_def)
  show "calcular_tempo_permanencia
     (Veiculo (JStr ''ABC1234'') (Naive (- 17987443200000000)) (JStr ''terreo''))
     (Naive 1704067200000001) = Inr 328191840"
    by (simp only: calcular_tempo_permanencia_delta [OF d] ts q i m) simp
next
  show "\<lceil>(of_int (1704067200000001 - (- 17987443200000000)) / 1000000 :: rat) / 60\<rceil>
       = 328191841"
    by (simp add: ceiling_eq_iff)
qed

text \<open>
  C1, amended. For an entry timestamp and an exit timestamp that is not earlier and
  less than \<open>2\<^sup>3\<^sup>4\<close> seconds (about 544 years) later, both naive or both aware,
  \<^verbatim>\<open>calcular_tempo_permanencia\<close> returns the ceiling of the elapsed seconds divided
  by 60: a non-zero remainder, down to one microsecond, rounds the minute count up, an
  exact multiple of 60 seconds does not. \<^verbatim>\<open>processar_saida\<close>, which the server calls
  for an exit event, reports that same number.
\<close>

theorem calcular_tempo_permanencia_ceiling:
  assumes "(ts_saida = Naive a \<and> veiculo.timestamp_entrada v = Naive b)
           \<or> (ts_saida = Aware a \<and> veiculo.timestamp_entrada v = Aware b)"
    and "b \<le> a" and "a - b < 2 ^ 34 * 1000000"
  shows "calcular_tempo_permanencia v ts_saida
           = Inr \<lceil>(of_int (a - b) / 1000000 :: rat) / 60\<rceil>
       \<and> (\<exists>r v'. processar_saida v ts_saida preco minimo = (Inr r, v')
             \<and> res_tempo_permanencia_minutos r = \<lceil>(of_int (a - b) / 1000000 :: rat) / 60\<rceil>
             \<and> veiculo.tempo_permanencia_minutos v'
                 = Some \<lceil>(of_int (a - b) / 1000000 :: rat) / 60\<rceil>)"
proof -
  from assms(1) have d: "dt_sub ts_saida (veiculo.timestamp_entrada v) = Inr (a - b)"
    by auto
  have "0 \<le> a - b" using assms(2) by simp
  then have "(if 0 < py_mod (total_seconds (a - b)) 60
          then py_int (fl (total_seconds (a - b) / 60)) + 1
          else py_int (fl (total_seconds (a - b) / 60)))
         = \<lceil>(of_int (a - b) / 1000000 :: rat) / 60\<rceil>"
    using assms(3) by (rule minutos_ceiling)
  then have t: "calcular_tempo_permanencia v ts_saida
           = Inr \<lceil>(of_int (a - b) / 1000000 :: rat) / 60\<rceil>"
    by (simp only: calcular_tempo_permanencia_delta [OF d])
  from t processar_saida_tempo [OF t] show ?thesis by (rule conjI)
qed

theorem calcular_tempo_permanencia_ceiling_witness:
  "calcular_tempo_permanencia
     (Veiculo (JStr ''ABC1234'') (Naive 1704103200000000) (JStr ''terreo''))
     (Naive 1704107130000000) = Inr 66
   \<and> calcular_tempo_permanencia
     (Veiculo (JStr ''ABC1234'') (Aware 1704103200000000) (JStr ''terreo''))
     (Aware 1704107100000000) = Inr 65
   \<and> calcular_tempo_permanencia
     (Veiculo (JStr ''ABC1234'') (Naive 1704103200000000) (JStr ''terreo''))
     (Naive 1704107100000001) = Inr 66"
proof -
  let ?n = "Veiculo (JStr ''ABC1234'') (Naive 1704103200000000) (JStr ''terreo'')"
  let ?w = "Veiculo (JStr ''ABC1234'') (Aware 1704103200000000) (JStr ''terreo'')"
  have a: "(Naive 1704107130000000 = Naive 1704107130000000
              \<and> veiculo.timestamp_entrada ?n = Naive 1704103200000000)
           \<or> (Naive 1704107130000000 = Aware 1704107130000000
              \<and> veiculo.timestamp_entrada ?n = Aware 1704103200000000)"
    by (simp add: Veiculo_def)
  have b: "(Aware 1704107100000000 = Naive 1704107100000000
              \<and> veiculo.timestamp_entrada ?w = Naive 1704103200000000)
           \<or> (Aware 1704107100000000 = Aware 1704107100000000
              \<and> veiculo.timestamp_entrada ?w = Aware 1704103200000000)"
    by (simp add: Veiculo_def)
  have c: "(Naive 1704107100000001 = Naive 1704107100000001
              \<and> veiculo.timestamp_entrada ?n = Naive 1704103200000000)
           \<or> (Naive 1704107100000001 = Aware 1704107100000001
              \<and> veiculo.timestamp_entrada ?n = Aware 1704103200000000)"
    by (simp add: Veiculo_def)
  have o: "(1704103200000000::int) \<le> 1704107130000000"
    "(1704103200000000::int) \<le> 1704107100000000"
    "(1704103200000000::int) \<le> 1704107100000001"
    by simp_all
  have l: "(1704107130000000::int) - 1704103200000000 < 2 ^ 34 * 1000000"
    "(1704107100000000::int) - 1704103200000000 < 2 ^ 34 * 1000000"
    "(1704107100000001::int) - 1704103200000000 < 2 ^ 34 * 1000000"
    by simp_all
  have v1: "\<lceil>(of_int (1704107130000000 - 1704103200000000) / 1000000 :: rat) / 60\<rceil> = 66"
    by (simp add: ceiling_eq_iff)
  have v2: "\<lceil>(of_int (1704107100000000 - 1704103200000000) / 1000000 :: rat) / 60\<rceil> = 65"
    by (simp add: ceiling_eq_iff)
  have v3: "\<lceil>(of_int (1704107100000001 - 1704103200000000) / 1000000 :: rat) / 60\<rceil> = 66"
    by (simp add: ceiling_eq_iff)
  from calcular_tempo_permanencia_ceiling [OF a o(1) l(1), of 0 0]
  have r1: "calcular_tempo_permanencia ?n (Naive 1704107130000000) = Inr 66"
    by (simp only: v1)
  from calcular_tempo_permanencia_ceiling [OF b o(2) l(2), of 0 0]
  have r2: "calcular_tempo_permanencia ?w (Aware 1704107100000000) = Inr 65"
    by (simp only: v2)
  from calcular_tempo_permanencia_ceiling [OF c o(3) l(3), of 0 0]
  have r3: "calcular_tempo_permanencia ?n (Naive 1704107100000001) = Inr 66"
    by (simp only: v3)
  from r1 r2 r3 show ?thesis by simp
qed

section \<open>Fee\<close>

lemma py_max_eq_max: "py_max a b = max a b"
  by (simp add: py_max_def max_def)

lemma calcular_valor_Some:
  "calcular_valor (v\<lparr>veiculo.tempo_permanencia_minutos := Some m\<rparr>) p vm
     = max (fl (fl (of_int m) * p)) vm"
  by (simp add: calcular_valor_def py_max_eq_max float_mul_def float_of_int_def)

lemma calcular_valor_exato:
  assumes "\<bar>m\<bar> < 2 ^ 53"
  shows "calcular_valor (v\<lparr>veiculo.tempo_permanencia_minutos := Some m\<rparr>) p vm
           = max (fl (of_int m * p)) vm"
  by (simp only: calcular_valor_Some fl_of_int_abs [OF assms])

lemma processar_saida_valor:
  assumes "processar_saida v ts p vm = (Inr r, v')"
  shows "res_valor_calculado r
           = calcular_valor
               (v\<lparr>veiculo.tempo_permanencia_minutos := Some (res_tempo_permanencia_minutos r)\<rparr>)
               p vm
       \<and> veiculo.valor_calculado v' = Some (res_valor_calculado r)"
proof (cases "calcular_tempo_permanencia (v\<lparr>veiculo.timestamp_saida := Some ts\<rparr>) ts")
  case (Inl e)
  with assms show ?thesis by (simp add: processar_saida_def)
next
  case (Inr t)
  have cv: "calcular_valor
              (v\<lparr>veiculo.timestamp_saida := Some ts,
                 veiculo.tempo_permanencia_minutos := Some t\<rparr>) p vm
            = calcular_valor (v\<lparr>veiculo.tempo_permanencia_minutos := Some t\<rparr>) p vm"
    by (simp add: calcular_valor_def)
  from assms Inr have r: "res_tempo_permanencia_minutos r = t"
    and rv: "res_valor_calculado r
               = calcular_valor (v\<lparr>veiculo.tempo_permanencia_minutos := Some t\<rparr>) p vm"
    and v': "veiculo.valor_calculado v'
               = Some (calcular_valor (v\<lparr>veiculo.tempo_permanencia_minutos := Some t\<rparr>) p vm)"
    by (auto simp add: processar_saida_def Let_def cv)
  show ?thesis by (simp only: r rv v' simp_thms)
qed

lemma preco_padrao_valor: "preco_padrao = 5404319552844595 / 36028797018963968"
  unfolding preco_padrao_def by code_simp

lemma fl_10_minutos: "fl (of_int 10 * preco_padrao) = 3 / 2"
  unfolding preco_padrao_valor by code_simp

lemma fl_18_minutos: "fl (of_int 18 * preco_padrao) = 6079859496950169 / 2251799813685248"
  unfolding preco_padrao_valor by code_simp

lemma fl_20_minutos: "fl (of_int 20 * preco_padrao) = 3"
  unfolding preco_padrao_valor by code_simp

lemma fl_30_minutos: "fl (of_int 30 * preco_padrao) = 9 / 2"
  unfolding preco_padrao_valor by code_simp

lemma calcular_valor_10_minutos:
  "calcular_valor (v\<lparr>veiculo.tempo_permanencia_minutos := Some 10\<rparr>) preco_padrao 2 = 2"
proof -
  have "calcular_valor (v\<lparr>veiculo.tempo_permanencia_minutos := Some 10\<rparr>) preco_padrao 2
          = max (fl (of_int 10 * preco_padrao)) 2"
    by (rule calcular_valor_exato) simp
  then show ?thesis by (simp only: fl_10_minutos)
qed

lemma calcular_valor_18_minutos:
  "calcular_valor (v\<lparr>veiculo.tempo_permanencia_minutos := Some 18\<rparr>) preco_padrao 2
     = 6079859496950169 / 2251799813685248"
proof -
  have "calcular_valor (v\<lparr>veiculo.tempo_permanencia_minutos := Some 18\<rparr>) preco_padrao 2
          = max (fl (of_int 18 * preco_padrao)) 2"
    by (rule calcular_valor_exato) simp
  then show ?thesis by (simp only: fl_18_minutos)
qed

lemma calcular_valor_20_minutos:
  "calcular_valor (v\<lparr>veiculo.tempo_permanencia_minutos := Some 20\<rparr>) preco_padrao 2 = 3"
proof -
  have "calcular_valor (v\<lparr>veiculo.tempo_permanencia_minutos := Some 20\<rparr>) preco_padrao 2
          = max (fl (of_int 20 * preco_padrao)) 2"
    by (rule calcular_valor_exato) simp
  then show ?thesis by (simp only: fl_20_minutos)
qed

lemma calcular_valor_30_minutos:
  "calcular_valor (v\<lparr>veiculo.tempo_permanencia_minutos := Some 30\<rparr>) preco_padrao 2 = 9 / 2"
proof -
  have "calcular_valor (v\<lparr>veiculo.tempo_permanencia_minutos := Some 30\<rparr>) preco_padrao 2
          = max (fl (of_int 30 * preco_padrao)) 2"
    by (rule calcular_valor_exato) simp
  then show ?thesis by (simp only: fl_30_minutos)
qed

text \<open>
  C2, as the claim states it, fails: for 18 minutes at the rate 0.15 and the minimum
  2.00 the fee is 2.6999999999999997 (the first fraction below), which is not the
  maximum of the minimum and the product of the minutes and the rate, whether the rate
  is read as the float 0.15 (the second fraction) or as the number 15/100 (which gives
  27/10): the product has been rounded to a float.
\<close>

theorem calcular_valor_counterexample:
  "calcular_valor
     ((Veiculo (JStr ''ABC1234'') (Naive 1704103200000000) (JStr ''terreo''))
        \<lparr>veiculo.tempo_permanencia_minutos := Some 18\<rparr>) preco_padrao 2
     = 6079859496950169 / 2251799813685248
   \<and> max (of_int 18 * preco_padrao) 2 = 48638875975601355 / 18014398509481984
   \<and> (6079859496950169 / 2251799813685248 :: rat) \<noteq> 48638875975601355 / 18014398509481984
   \<and> (6079859496950169 / 2251799813685248 :: rat) \<noteq> max (of_int 18 * (15 / 100)) 2"
proof (intro conjI)
  show "(6079859496950169 / 2251799813685248 :: rat) \<noteq> max (of_int 18 * (15 / 100)) 2"
    by simp
  show "calcular_valor
     ((Veiculo (JStr ''ABC1234'') (Naive 1704103200000000) (JStr ''terreo''))
        \<lparr>veiculo.tempo_permanencia_minutos := Some 18\<rparr>) preco_padrao 2
     = 6079859496950169 / 2251799813685248"
    by (rule calcular_valor_18_minutos)
  show "max (of_int 18 * preco_padrao) 2 = 48638875975601355 / 18014398509481984"
    unfolding preco_padrao_valor by simp
  show "(6079859496950169 / 2251799813685248 :: rat) \<noteq> 48638875975601355 / 18014398509481984"
    by simp
qed

text \<open>
  C2, amended. For a duration of \<open>m\<close> minutes, \<open>\<bar>m\<bar> < 2\<^sup>5\<^sup>3\<close>, and a rate whose
  product with \<open>m\<close> stays within the finite floats, \<^verbatim>\<open>calcular_valor\<close> returns the
  maximum of the minimum fee and the product of the minutes and the rate rounded to the
  nearest float, and so does the fee that \<^verbatim>\<open>processar_saida\<close> reports for the
  duration it reports. With the rate 0.15 and the minimum 2.00, 10 minutes cost 2.00,
  20 minutes 3.00 and 30 minutes 4.50.
\<close>

theorem calcular_valor_max:
  assumes "\<bar>m\<bar> < 2 ^ 53" and "\<bar>of_int m * preco\<bar> < 2 ^ 1023"
  shows "calcular_valor (v\<lparr>veiculo.tempo_permanencia_minutos := Some m\<rparr>) preco minimo
           = max (fl (of_int m * preco)) minimo
       \<and> (\<forall>r v'. processar_saida v ts_saida preco minimo = (Inr r, v')
                   \<and> res_tempo_permanencia_minutos r = m \<longrightarrow>
            res_valor_calculado r = max (fl (of_int m * preco)) minimo
            \<and> veiculo.valor_calculado v' = Some (res_valor_calculado r))
       \<and> calcular_valor (v\<lparr>veiculo.tempo_permanencia_minutos := Some 10\<rparr>) preco_padrao 2 = 2
       \<and> calcular_valor (v\<lparr>veiculo.tempo_permanencia_minutos := Some 20\<rparr>) preco_padrao 2 = 3
       \<and> calcular_valor (v\<lparr>veiculo.tempo_permanencia_minutos := Some 30\<rparr>) preco_padrao 2
           = 9 / 2"
proof (intro conjI allI impI)
  show g: "calcular_valor (v\<lparr>veiculo.tempo_permanencia_minutos := Some m\<rparr>) preco minimo
          = max (fl (of_int m * preco)) minimo"
    using assms(1) by (rule calcular_valor_exato)
  fix r v'
  assume "processar_saida v ts_saida preco minimo = (Inr r, v')
            \<and> res_tempo_permanencia_minutos r = m"
  then have run: "processar_saida v ts_saida preco minimo = (Inr r, v')"
    and m: "res_tempo_permanencia_minutos r = m" by simp_all
  from processar_saida_valor [OF run]
  show "res_valor_calculado r = max (fl (of_int m * preco)) minimo"
    by (simp only: m g)
  from processar_saida_valor [OF run]
  show "veiculo.valor_calculado v' = Some (res_valor_calculado r)"
    by (rule conjunct2)
next
  show "calcular_valor (v\<lparr>veiculo.tempo_permanencia_minutos := Some 10\<rparr>) preco_padrao 2 = 2"
    by (rule calcular_valor_10_minutos)
  show "calcular_valor (v\<lparr>veiculo.tempo_permanencia_minutos := Some 20\<rparr>) preco_padrao 2 = 3"
    by (rule calcular_valor_20_minutos)
  show "calcular_valor (v\<lparr>veiculo.tempo_permanencia_minutos := Some 30\<rparr>) preco_padrao 2
          = 9 / 2"
    by (rule calcular_valor_30_minutos)
qed

theorem calcular_valor_max_witness:
  "\<bar>30::int\<bar> < 2 ^ 53 \<and> \<bar>of_int 30 * preco_padrao\<bar> < 2 ^ 1023
   \<and> calcular_valor
        ((Veiculo (JStr ''ABC1234'') (Naive 1704103200000000) (JStr ''terreo''))
           \<lparr>veiculo.tempo_permanencia_minutos := Some 30\<rparr>) preco_padrao 2
       = max (fl (of_int 30 * preco_padrao)) 2
   \<and> max (fl (of_int 30 * preco_padrao)) 2 = 9 / 2
   \<and> (\<exists>r v'. processar_saida
                (Veiculo (JStr ''ABC1234'') (Naive 1704103200000000) (JStr ''terreo''))
                (Naive 1704105000000000) preco_padrao 2 = (Inr r, v')
             \<and> res_tempo_permanencia_minutos r = 30
             \<and> res_valor_calculado r = 9 / 2
             \<and> veiculo.valor_calculado v' = Some (9 / 2))"
proof -
  let ?v = "Veiculo (JStr ''ABC1234'') (Naive 1704103200000000) (JStr ''terreo'')"
  have h1: "\<bar>30::int\<bar> < 2 ^ 53" by simp
  have h3: "\<bar>of_int 30 * preco_padrao\<bar> < 2 ^ 1023"
    unfolding preco_padrao_valor by simp
  have mx: "max (fl (of_int 30 * preco_padrao)) 2 = 9 / 2"
    by (simp only: fl_30_minutos)
  have d: "dt_sub (Naive 1704105000000000) (veiculo.timestamp_entrada ?v) = Inr 1800000000"
    by (simp add: Veiculo_def)
  have "(if 0 < py_mod (total_seconds 1800000000) 60
          then py_int (fl (total_seconds 1800000000 / 60)) + 1
          else py_int (fl (total_seconds 1800000000 / 60)))
         = \<lceil>(of_int 1800000000 / 1000000 :: rat) / 60\<rceil>"
    by (rule minutos_ceiling) simp_all
  also have "\<dots> = 30" by simp
  finally have "calcular_tempo_permanencia ?v (Naive 1704105000000000) = Inr 30"
    by (simp only: calcular_tempo_permanencia_delta [OF d])
  from processar_saida_tempo [OF this, of preco_padrao 2]
  obtain r v' where run: "processar_saida ?v (Naive 1704105000000000) preco_padrao 2 = (Inr r, v')"
    and t: "res_tempo_permanencia_minutos r = 30"
    by blast
  note inst = calcular_valor_max [OF h1 h3, of ?v 2 "Naive 1704105000000000"]
  from inst have c: "calcular_valor (?v\<lparr>veiculo.tempo_permanencia_minutos := Some 30\<rparr>)
                      preco_padrao 2 = max (fl (of_int 30 * preco_padrao)) 2"
    by (rule conjunct1)
  from inst run t have "res_valor_calculado r = max (fl (of_int 30 * preco_padrao)) 2
            \<and> veiculo.valor_calculado v' = Some (res_valor_calculado r)"
    by blast
  then have "res_valor_calculado r = 9 / 2" and "veiculo.valor_calculado v' = Some (9 / 2)"
    by (simp_all only: mx)
  with run t have e: "\<exists>r v'. processar_saida ?v (Naive 1704105000000000) preco_padrao 2 = (Inr r, v')
             \<and> res_tempo_permanencia_minutos r = 30
             \<and> res_valor_calculado r = 9 / 2
             \<and> veiculo.valor_calculado v' = Some (9 / 2)"
    by blast
  from h1 h3 c mx e show ?thesis by (intro conjI)
qed


section \<open>The central server\<close>

lemma veiculos_de_append_evento: "veiculos_de (cs @ [InsertEvento e]) = veiculos_de cs"
  by (induction cs rule: veiculos_de.induct) simp_all

lemma eventos_de_append_evento: "eventos_de (cs @ [InsertEvento e]) = eventos_de cs @ [e]"
  by (induction cs rule: eventos_de.induct) simp_all

lemma eventos_de_append_veiculo: "eventos_de (cs @ [InsertVeiculo v]) = eventos_de cs"
  by (induction cs rule: eventos_de.induct) simp_all

lemma eventos_de_append_update: "eventos_de (cs @ [UpdateVeiculo v]) = eventos_de cs"
  by (induction cs rule: eventos_de.induct) simp_all

text \<open>What storing an event can change: nothing but the database, by at most one row.\<close>

lemma salvar_evento_efeito:
  assumes "salvar_evento amb ev st = (eid, st1)"
  shows "veiculos_estacionados st1 = veiculos_estacionados st
       \<and> estacionamento_fechado st1 = estacionamento_fechado st
       \<and> andar_bloqueado st1 = andar_bloqueado st
       \<and> preco_por_minuto st1 = preco_por_minuto st
       \<and> valor_minimo st1 = valor_minimo st
       \<and> veiculos_de (banco st1) = veiculos_de (banco st)
       \<and> (if sqlite_ok amb (InsertEvento ev)
           then eventos_de (banco st1) = eventos_de (banco st) @ [ev]
           else eventos_de (banco st1) = eventos_de (banco st))"
proof (cases "sqlite_ok amb (InsertEvento ev)")
  case True
  with assms have "st1 = st\<lparr>banco := banco st @ [InsertEvento ev]\<rparr>"
    by (simp add: salvar_evento_def)
  with True show ?thesis
    by (simp add: veiculos_de_append_evento eventos_de_append_evento)
next
  case False
  with assms have "st1 = st" by (simp add: salvar_evento_def)
  with False show ?thesis by simp
qed

text \<open>Past the two administrative checks the event goes to the handler of its kind.\<close>

lemma processar_evento_entrada:
  assumes "criar_evento amb dados = Inr ev" and "tipo ev = ENTRADA"
    and "\<not> estacionamento_fechado st"
    and "\<not> (andar_bloqueado st \<and> evento.andar ev = JStr ''terreo'')"
  shows "processar_evento amb dados st =
           (case processar_entrada amb ev st of
              (Inl e, st') \<Rightarrow> (resposta_erro e, st')
            | (Inr r, st') \<Rightarrow> (r, st'))"
proof -
  have "\<not> (andar_bloqueado st \<and> evento.andar ev = JStr ''terreo'')" by (rule assms(4))
  then have "(if andar_bloqueado st \<and> evento.andar ev = JStr ''terreo'' then x else y) = y"
    for x y :: "evento_resposta \<times> servidor_central"
    by (rule if_not_P)
  then show ?thesis
    using assms(1-3) by (simp add: processar_evento_def del: de_Morgan_conj)
qed

lemma processar_evento_saida:
  assumes "criar_evento amb dados = Inr ev" and "tipo ev = SAIDA"
    and "\<not> estacionamento_fechado st"
    and "\<not> (andar_bloqueado st \<and> evento.andar ev = JStr ''terreo'')"
  shows "processar_evento amb dados st =
           (case processar_saida_central amb ev st of
              (Inl e, st') \<Rightarrow> (resposta_erro e, st')
            | (Inr r, st') \<Rightarrow> (r, st'))"
proof -
  have "\<not> (andar_bloqueado st \<and> evento.andar ev = JStr ''terreo'')" by (rule assms(4))
  then have "(if andar_bloqueado st \<and> evento.andar ev = JStr ''terreo'' then x else y) = y"
    for x y :: "evento_resposta \<times> servidor_central"
    by (rule if_not_P)
  then show ?thesis
    using assms(1-3) by (simp add: processar_evento_def del: de_Morgan_conj)
qed

lemma processar_entrada_duplicada:
  assumes "py_hash (evento.placa ev) = Inr k" and "veiculos_estacionados st k = Some v"
  shows "processar_entrada amb ev st =
           (Inr \<lparr>evento_id = fst (salvar_evento amb ev st), sucesso = False,
                 acao = ''negar_entrada'', valor = None, tempo_permanencia = None,
                 mensagem = Some MsgVeiculoJaEstacionado\<rparr>,
            snd (salvar_evento amb ev st))"
  using assms by (simp add: processar_entrada_def split_beta)

lemma processar_saida_ausente:
  assumes "py_hash (evento.placa ev) = Inr k" and "veiculos_estacionados st k = None"
  shows "processar_saida_central amb ev st =
           (Inr \<lparr>evento_id = fst (salvar_evento amb ev st), sucesso = False,
                 acao = ''negar_saida'', valor = None, tempo_permanencia = None,
                 mensagem = Some MsgVeiculoNaoEncontrado\<rparr>,
            snd (salvar_evento amb ev st))"
  using assms by (simp add: processar_saida_central_def split_beta)

lemma criar_evento_exemplo:
  "criar_evento amb_exemplo (dados_exemplo ''entrada'' ''2024-01-01T10:30:00'')
     = Inr \<lparr>ident = None, placa = JStr ''ABC1234'', tipo = ENTRADA,
            timestamp = Naive 1800000000, confianca_lpr = JNum (95 / 100),
            andar = JStr ''terreo'', status = PENDENTE, valor_calculado = None,
            tempo_permanencia_minutos = None, erro_descricao = None\<rparr>"
  by (simp add: criar_evento_def dados_exemplo_def amb_exemplo_def)

lemma criar_evento_exemplo_saida:
  "criar_evento amb_exemplo (dados_exemplo ''saida'' ''2024-01-01T10:30:00'')
     = Inr \<lparr>ident = None, placa = JStr ''ABC1234'', tipo = SAIDA,
            timestamp = Naive 1800000000, confianca_lpr = JNum (95 / 100),
            andar = JStr ''terreo'', status = PENDENTE, valor_calculado = None,
            tempo_permanencia_minutos = None, erro_descricao = None\<rparr>"
  by (simp add: criar_evento_def dados_exemplo_def amb_exemplo_def)

text \<open>
  C3. When the plate of an entry event is already in the map of parked vehicles, and
  neither the closed garage nor the blocked floor stops the event, the response has
  \<open>sucesso = False\<close> and \<open>acao = negar_entrada\<close>; the map of parked vehicles, the
  flags and the prices are unchanged, and no vehicle record is added to the database.
\<close>

theorem entrada_de_placa_estacionada:
  assumes "criar_evento amb dados = Inr ev" and "tipo ev = ENTRADA"
    and "\<not> estacionamento_fechado st"
    and "\<not> (andar_bloqueado st \<and> evento.andar ev = JStr ''terreo'')"
    and "py_hash (evento.placa ev) = Inr k" and "veiculos_estacionados st k = Some v"
  shows "\<exists>r st'. processar_evento amb dados st = (r, st')
           \<and> sucesso r = False \<and> acao r = ''negar_entrada''
           \<and> veiculos_estacionados st' = veiculos_estacionados st
           \<and> veiculos_de (banco st') = veiculos_de (banco st)
           \<and> estacionamento_fechado st' = estacionamento_fechado st
           \<and> andar_bloqueado st' = andar_bloqueado st"
proof -
  obtain eid st1 where s: "salvar_evento amb ev st = (eid, st1)"
    by (cases "salvar_evento amb ev st")
  have "processar_evento amb dados st =
          (\<lparr>evento_id = eid, sucesso = False, acao = ''negar_entrada'', valor = None,
            tempo_permanencia = None, mensagem = Some MsgVeiculoJaEstacionado\<rparr>, st1)"
    by (simp add: processar_evento_entrada [OF assms(1-4)]
        processar_entrada_duplicada [OF assms(5,6)] s)
  then show ?thesis
    using salvar_evento_efeito [OF s] by simp
qed

theorem entrada_de_placa_estacionada_witness:
  "\<exists>r st'. processar_evento amb_exemplo (dados_exemplo ''entrada'' ''2024-01-01T10:30:00'')
              (servidor_exemplo False estacionados_exemplo) = (r, st')
           \<and> sucesso r = False \<and> acao r = ''negar_entrada''
           \<and> veiculos_estacionados st'
               = veiculos_estacionados (servidor_exemplo False estacionados_exemplo)
           \<and> veiculos_de (banco st')
               = veiculos_de (banco (servidor_exemplo False estacionados_exemplo))
           \<and> estacionamento_fechado st'
               = estacionamento_fechado (servidor_exemplo False estacionados_exemplo)
           \<and> andar_bloqueado st'
               = andar_bloqueado (servidor_exemplo False estacionados_exemplo)"
  by (rule entrada_de_placa_estacionada [OF criar_evento_exemplo, where k = "KStr ''ABC1234''"])
    (simp_all add: servidor_exemplo_def estacionados_exemplo_def)

text \<open>
  C4. When the plate of an exit event is not in the map of parked vehicles, and neither
  the closed garage nor the blocked floor stops the event, the response has
  \<open>sucesso = False\<close> and \<open>acao = negar_saida\<close>, and the map of parked vehicles is
  unchanged.
\<close>

theorem saida_de_placa_ausente:
  assumes "criar_evento amb dados = Inr ev" and "tipo ev = SAIDA"
    and "\<not> estacionamento_fechado st"
    and "\<not> (andar_bloqueado st \<and> evento.andar ev = JStr ''terreo'')"
    and "py_hash (evento.placa ev) = Inr k" and "veiculos_estacionados st k = None"
  shows "\<exists>r st'. processar_evento amb dados st = (r, st')
           \<and> sucesso r = False \<and> acao r = ''negar_saida''
           \<and> veiculos_estacionados st' = veiculos_estacionados st"
proof -
  obtain eid st1 where s: "salvar_evento amb ev st = (eid, st1)"
    by (cases "salvar_evento amb ev st")
  have "processar_evento amb dados st =
          (\<lparr>evento_id = eid, sucesso = False, acao = ''negar_saida'', valor = None,
            tempo_permanencia = None, mensagem = Some MsgVeiculoNaoEncontrado\<rparr>, st1)"
    by (simp add: processar_evento_saida [OF assms(1-4)]
        processar_saida_ausente [OF assms(5,6)] s)
  then show ?thesis
    using salvar_evento_efeito [OF s] by simp
qed

theorem saida_de_placa_ausente_witness:
  "\<exists>r st'. processar_evento amb_exemplo (dados_exemplo ''saida'' ''2024-01-01T10:30:00'')
              (servidor_exemplo False Map.empty) = (r, st')
           \<and> sucesso r = False \<and> acao r = ''negar_saida''
           \<and> veiculos_estacionados st'
               = veiculos_estacionados (servidor_exemplo False Map.empty)"
  by (rule saida_de_placa_ausente [OF criar_evento_exemplo_saida, where k = "KStr ''ABC1234''"])
    (simp_all add: servidor_exemplo_def)

text \<open>
  C5. While the garage-closed flag is set, an entry event, whatever its plate, gets a
  response with \<open>sucesso = False\<close> and \<open>acao = negar_entrada\<close>, and the whole state of
  the server (map of parked vehicles, flags, database) is left as it was.
\<close>

theorem entrada_com_estacionamento_fechado:
  assumes "estacionamento_fechado st"
    and "criar_evento amb dados = Inr ev" and "tipo ev = ENTRADA"
  shows "\<exists>r. processar_evento amb dados st = (r, st)
           \<and> sucesso r = False \<and> acao r = ''negar_entrada''"
  using assms by (simp add: processar_evento_def)

theorem entrada_com_estacionamento_fechado_witness:
  "\<exists>r. processar_evento amb_exemplo (dados_exemplo ''entrada'' ''2024-01-01T10:30:00'')
          (servidor_exemplo True Map.empty) = (r, servidor_exemplo True Map.empty)
       \<and> sucesso r = False \<and> acao r = ''negar_entrada''"
  by (rule entrada_com_estacionamento_fechado [OF _ criar_evento_exemplo])
    (simp_all add: servidor_exemplo_def)

text \<open>
  C10. While the garage-closed flag is set, an exit event, also for a plate that is in
  the map of parked vehicles, gets a response with \<open>sucesso = False\<close> and
  \<open>acao = negar_entrada\<close> (not \<open>negar_saida\<close>), and the whole state of the server is
  left as it was: the vehicle stays in the map.
\<close>

theorem saida_com_estacionamento_fechado:
  assumes "estacionamento_fechado st"
    and "criar_evento amb dados = Inr ev" and "tipo ev = SAIDA"
  shows "\<exists>r. processar_evento amb dados st = (r, st)
           \<and> sucesso r = False \<and> acao r = ''negar_entrada'' \<and> acao r \<noteq> ''negar_saida''"
  using assms by (simp add: processar_evento_def)

theorem saida_com_estacionamento_fechado_witness:
  "veiculos_estacionados (servidor_exemplo True estacionados_exemplo) (KStr ''ABC1234'')
     = Some (Veiculo (JStr ''ABC1234'') (Naive 0) (JStr ''terreo''))
   \<and> (\<exists>r. processar_evento amb_exemplo (dados_exemplo ''saida'' ''2024-01-01T10:30:00'')
          (servidor_exemplo True estacionados_exemplo)
            = (r, servidor_exemplo True estacionados_exemplo)
       \<and> sucesso r = False \<and> acao r = ''negar_entrada'' \<and> acao r \<noteq> ''negar_saida'')"
proof
  show "veiculos_estacionados (servidor_exemplo True estacionados_exemplo) (KStr ''ABC1234'')
     = Some (Veiculo (JStr ''ABC1234'') (Naive 0) (JStr ''terreo''))"
    by (simp add: servidor_exemplo_def estacionados_exemplo_def)
next
  show "\<exists>r. processar_evento amb_exemplo (dados_exemplo ''saida'' ''2024-01-01T10:30:00'')
          (servidor_exemplo True estacionados_exemplo)
            = (r, servidor_exemplo True estacionados_exemplo)
       \<and> sucesso r = False \<and> acao r = ''negar_entrada'' \<and> acao r \<noteq> ''negar_saida''"
    by (rule saida_com_estacionamento_fechado [OF _ criar_evento_exemplo_saida])
      (simp_all add: servidor_exemplo_def)
qed


section \<open>The event log\<close>

lemma salvar_evento_log:
  "log_de_eventos (snd (salvar_evento amb e st))
     = (if sqlite_ok amb (InsertEvento e) then log_de_eventos st @ [e] else log_de_eventos st)"
  by (simp add: salvar_evento_def log_de_eventos_def eventos_de_append_evento)

lemma salvar_veiculo_log: "log_de_eventos (salvar_veiculo amb v st) = log_de_eventos st"
  by (simp add: salvar_veiculo_def log_de_eventos_def eventos_de_append_veiculo)

lemma atualizar_veiculo_log: "log_de_eventos (atualizar_veiculo amb v st) = log_de_eventos st"
  by (simp add: atualizar_veiculo_def log_de_eventos_def eventos_de_append_update)

lemma log_de_eventos_veiculos_update [simp]:
  "log_de_eventos (st\<lparr>veiculos_estacionados := m\<rparr>) = log_de_eventos st"
  by (simp add: log_de_eventos_def)

lemma registro_de_refl: "registro_de ev ev"
  by (simp add: registro_de_def)

lemma processar_entrada_log: "efeito_no_log amb ev st (processar_entrada amb ev st)"
proof (cases "py_hash (evento.placa ev)")
  case (Inl x)
  then show ?thesis by (simp add: processar_entrada_def efeito_no_log_def)
next
  case (Inr k)
  show ?thesis
  proof (cases "veiculos_estacionados st k")
    case (Some v)
    have "registro_de ev ev \<and> log_de_eventos (snd (salvar_evento amb ev st))
            = (if sqlite_ok amb (InsertEvento ev) then log_de_eventos st @ [ev]
               else log_de_eventos st)"
      by (simp only: registro_de_refl salvar_evento_log)
    then show ?thesis
      unfolding efeito_no_log_def processar_entrada_duplicada [OF Inr Some]
      by (simp del: salvar_evento_log) blast
  next
    case None
    let ?ev1 = "ev\<lparr>evento.status := CONCLUIDO\<rparr>"
    let ?v = "Veiculo (evento.placa ev) (timestamp ev) (evento.andar ev)"
    let ?st1 = "st\<lparr>veiculos_estacionados := (veiculos_estacionados st)(k \<mapsto> ?v)\<rparr>"
    have run: "processar_entrada amb ev st =
            (Inr \<lparr>evento_id = fst (salvar_evento amb ?ev1 ?st1), sucesso = True,
                  acao = ''abrir_cancela'', valor = None, tempo_permanencia = None,
                  mensagem = Some MsgEntradaAutorizada\<rparr>,
             salvar_veiculo amb ?v (snd (salvar_evento amb ?ev1 ?st1)))"
      using Inr None by (simp add: processar_entrada_def Let_def split_beta)
    have "registro_de ev ?ev1" by (simp add: registro_de_def)
    moreover have "log_de_eventos (salvar_veiculo amb ?v (snd (salvar_evento amb ?ev1 ?st1)))
            = (if sqlite_ok amb (InsertEvento ?ev1) then log_de_eventos st @ [?ev1]
               else log_de_eventos st)"
      by (simp add: salvar_veiculo_log salvar_evento_log)
    ultimately show ?thesis
      unfolding efeito_no_log_def run by (simp only: fst_conv snd_conv sum.case) (rule conjI, simp, blast)
  qed
qed

lemma processar_saida_central_log:
  "efeito_no_log amb ev st (processar_saida_central amb ev st)"
proof (cases "py_hash (evento.placa ev)")
  case (Inl x)
  then show ?thesis by (simp add: processar_saida_central_def efeito_no_log_def)
next
  case (Inr k)
  show ?thesis
  proof (cases "veiculos_estacionados st k")
    case None
    have "registro_de ev ev \<and> log_de_eventos (snd (salvar_evento amb ev st))
            = (if sqlite_ok amb (InsertEvento ev) then log_de_eventos st @ [ev]
               else log_de_eventos st)"
      by (simp only: registro_de_refl salvar_evento_log)
    then show ?thesis
      unfolding efeito_no_log_def processar_saida_ausente [OF Inr None]
      by (simp del: salvar_evento_log) blast
  next
    case (Some v)
    obtain res v1 where ps:
      "processar_saida v (timestamp ev) (preco_por_minuto st) (valor_minimo st) = (res, v1)"
      by (cases "processar_saida v (timestamp ev) (preco_por_minuto st) (valor_minimo st)")
    show ?thesis
    proof (cases res)
      case (Inl x)
      have "processar_saida_central amb ev st =
              (Inl x, st\<lparr>veiculos_estacionados := (veiculos_estacionados st)(k \<mapsto> v1)\<rparr>)"
        using Inr Some ps Inl by (simp add: processar_saida_central_def)
      then show ?thesis by (simp add: efeito_no_log_def)
    next
      case (Inr resultado)
      let ?ev1 = "ev\<lparr>evento.valor_calculado := Some (res_valor_calculado resultado),
                       evento.tempo_permanencia_minutos :=
                         Some (res_tempo_permanencia_minutos resultado),
                       evento.status := CONCLUIDO\<rparr>"
      let ?st1 = "st\<lparr>veiculos_estacionados := (veiculos_estacionados st)(k := None)\<rparr>"
      have run: "processar_saida_central amb ev st =
              (Inr \<lparr>evento_id = fst (salvar_evento amb ?ev1 ?st1), sucesso = True,
                    acao = ''cobrar_valor'',
                    valor = Some (res_valor_calculado resultado),
                    tempo_permanencia = Some (res_tempo_permanencia_minutos resultado),
                    mensagem = Some (MsgValorAPagar (res_valor_calculado resultado))\<rparr>,
               atualizar_veiculo amb v1 (snd (salvar_evento amb ?ev1 ?st1)))"
        using \<open>py_hash (evento.placa ev) = Inr k\<close> Some ps Inr
        by (simp add: processar_saida_central_def Let_def split_beta)
      have "registro_de ev ?ev1" by (simp add: registro_de_def)
      moreover have
        "log_de_eventos (atualizar_veiculo amb v1 (snd (salvar_evento amb ?ev1 ?st1)))
            = (if sqlite_ok amb (InsertEvento ?ev1) then log_de_eventos st @ [?ev1]
               else log_de_eventos st)"
        by (simp add: atualizar_veiculo_log salvar_evento_log)
      ultimately show ?thesis
        unfolding efeito_no_log_def run
        by (simp only: fst_conv snd_conv sum.case) (rule conjI, simp, blast)
    qed
  qed
qed

lemma despacho_log:
  assumes "efeito_no_log amb ev st h"
    and "(case h of (Inl x, s) \<Rightarrow> (resposta_erro x, s) | (Inr r0, s) \<Rightarrow> (r0, s)) = (r, st')"
  shows "if acao r = ''erro'' then log_de_eventos st' = log_de_eventos st
         else \<exists>e. registro_de ev e
                \<and> log_de_eventos st'
                    = (if sqlite_ok amb (InsertEvento e) then log_de_eventos st @ [e]
                       else log_de_eventos st)"
proof -
  obtain res st2 where h: "h = (res, st2)" by (cases h)
  show ?thesis
  proof (cases res)
    case (Inl x)
    with assms h have "r = resposta_erro x" and "st' = st2"
      and "log_de_eventos st2 = log_de_eventos st"
      by (simp_all add: efeito_no_log_def)
    then show ?thesis by (simp add: resposta_erro_def)
  next
    case (Inr r0)
    with assms(2) h have eq: "r = r0" "st' = st2" by simp_all
    from assms(1) h Inr have "acao r0 \<noteq> ''erro''"
      and "\<exists>e. registro_de ev e
                \<and> log_de_eventos st2
                    = (if sqlite_ok amb (InsertEvento e) then log_de_eventos st @ [e]
                       else log_de_eventos st)"
      by (simp_all add: efeito_no_log_def)
    with eq show ?thesis by simp
  qed
qed

lemma processar_evento_log:
  assumes run: "processar_evento amb dados st = (r, st')"
    and ev: "criar_evento amb dados = Inr ev"
  shows "if estacionamento_fechado st
            \<or> (andar_bloqueado st \<and> evento.andar ev = JStr ''terreo'')
            \<or> acao r = ''erro''
         then log_de_eventos st' = log_de_eventos st
         else \<exists>e. registro_de ev e
                \<and> log_de_eventos st'
                    = (if sqlite_ok amb (InsertEvento e) then log_de_eventos st @ [e]
                       else log_de_eventos st)"
proof (cases "estacionamento_fechado st")
  case True
  with run ev have "st' = st" by (simp add: processar_evento_def)
  with True show ?thesis by simp
next
  case aberto: False
  show ?thesis
  proof (cases "andar_bloqueado st \<and> evento.andar ev = JStr ''terreo''")
    case True
    with run ev aberto have "st' = st" by (simp add: processar_evento_def)
    with True show ?thesis by simp
  next
    case livre: False
    have outro: "if acao r = ''erro'' then log_de_eventos st' = log_de_eventos st
         else \<exists>e. registro_de ev e
                \<and> log_de_eventos st'
                    = (if sqlite_ok amb (InsertEvento e) then log_de_eventos st @ [e]
                       else log_de_eventos st)"
    proof (cases "tipo ev")
      case ENTRADA
      from run have "(case processar_entrada amb ev st of
              (Inl e, st') \<Rightarrow> (resposta_erro e, st')
            | (Inr r, st') \<Rightarrow> (r, st')) = (r, st')"
        by (simp only: processar_evento_entrada [OF ev ENTRADA aberto livre])
      with processar_entrada_log show ?thesis by (rule despacho_log)
    next
      case SAIDA
      from run have "(case processar_saida_central amb ev st of
              (Inl e, st') \<Rightarrow> (resposta_erro e, st')
            | (Inr r, st') \<Rightarrow> (r, st')) = (r, st')"
        by (simp only: processar_evento_saida [OF ev SAIDA aberto livre])
      with processar_saida_central_log show ?thesis by (rule despacho_log)
    next
      case ERRO
      with run ev aberto livre have "st' = st" and "acao r = ''erro''"
        by (auto simp add: processar_evento_def)
      then show ?thesis by simp
    next
      case MANUTENCAO
      with run ev aberto livre have "st' = st" and "acao r = ''erro''"
        by (auto simp add: processar_evento_def)
      then show ?thesis by simp
    qed
    have c: "(estacionamento_fechado st
            \<or> (andar_bloqueado st \<and> evento.andar ev = JStr ''terreo'')
            \<or> acao r = ''erro'') = (acao r = ''erro'')"
      using aberto livre by blast
    show ?thesis unfolding c by (rule outro)
  qed
qed

text \<open>
  C6, as the claim states it, fails: with the garage closed an entry event gets its
  response (a denial) and the event log stays empty.
\<close>

theorem log_estacionamento_fechado_counterexample:
  "acao (fst (processar_evento amb_exemplo (dados_exemplo ''entrada'' ''2024-01-01T10:30:00'')
                (servidor_exemplo True Map.empty))) = ''negar_entrada''
   \<and> log_de_eventos (servidor_exemplo True Map.empty) = []
   \<and> log_de_eventos (snd (processar_evento amb_exemplo
                (dados_exemplo ''entrada'' ''2024-01-01T10:30:00'')
                (servidor_exemplo True Map.empty))) = []"
  by (simp add: processar_evento_def criar_evento_exemplo servidor_exemplo_def
      log_de_eventos_def)

text \<open>
  C6, amended. A call of \<open>processar_evento\<close> appends at most one record to the event
  log. When the request does not make an event, nothing is appended. When it does, and
  the garage is closed, or the floor is blocked for the event's floor, or the response
  is the error response (unsupported kind, or an exception), nothing is appended.
  Otherwise the server tries to store exactly one record of that event, and the log
  grows by that one record when the database accepts the insert and stays as it was
  when it does not.
\<close>

theorem registro_no_log:
  assumes "processar_evento amb dados st = (r, st')"
  shows "(log_de_eventos st' = log_de_eventos st
          \<or> (\<exists>e. log_de_eventos st' = log_de_eventos st @ [e]))
       \<and> (\<forall>x. criar_evento amb dados = Inl x \<longrightarrow> log_de_eventos st' = log_de_eventos st)
       \<and> (\<forall>ev. criar_evento amb dados = Inr ev \<longrightarrow>
            (if estacionamento_fechado st
                \<or> (andar_bloqueado st \<and> evento.andar ev = JStr ''terreo'')
                \<or> acao r = ''erro''
             then log_de_eventos st' = log_de_eventos st
             else \<exists>e. registro_de ev e
                    \<and> log_de_eventos st'
                        = (if sqlite_ok amb (InsertEvento e) then log_de_eventos st @ [e]
                           else log_de_eventos st)))"
proof -
  have falha: "log_de_eventos st' = log_de_eventos st" if "criar_evento amb dados = Inl x" for x
    using assms that by (simp add: processar_evento_def)
  have feito: "if estacionamento_fechado st
                \<or> (andar_bloqueado st \<and> evento.andar ev = JStr ''terreo'')
                \<or> acao r = ''erro''
             then log_de_eventos st' = log_de_eventos st
             else \<exists>e. registro_de ev e
                    \<and> log_de_eventos st'
                        = (if sqlite_ok amb (InsertEvento e) then log_de_eventos st @ [e]
                           else log_de_eventos st)"
    if "criar_evento amb dados = Inr ev" for ev
    using assms that by (rule processar_evento_log)
  have um: "log_de_eventos st' = log_de_eventos st
          \<or> (\<exists>e. log_de_eventos st' = log_de_eventos st @ [e])"
  proof (cases "criar_evento amb dados")
    case (Inl x)
    then show ?thesis using falha by blast
  next
    case (Inr ev)
    from feito [OF Inr] show ?thesis
      by (auto split: if_splits)
  qed
  from um falha feito show ?thesis by blast
qed

theorem registro_no_log_witness:
  "\<exists>e. registro_de \<lparr>ident = None, placa = JStr ''ABC1234'', tipo = ENTRADA,
            timestamp = Naive 1800000000, confianca_lpr = JNum (95 / 100),
            andar = JStr ''terreo'', status = PENDENTE, valor_calculado = None,
            tempo_permanencia_minutos = None, erro_descricao = None\<rparr> e
     \<and> log_de_eventos (snd (processar_evento amb_exemplo
          (dados_exemplo ''entrada'' ''2024-01-01T10:30:00'') (servidor_exemplo False Map.empty)))
        = log_de_eventos (servidor_exemplo False Map.empty) @ [e]"
proof -
  let ?p = "processar_evento amb_exemplo
          (dados_exemplo ''entrada'' ''2024-01-01T10:30:00'') (servidor_exemplo False Map.empty)"
  have run: "?p = (fst ?p, snd ?p)" by simp
  have a: "acao (fst ?p) = ''abrir_cancela''"
    by (simp add: processar_evento_def criar_evento_exemplo servidor_exemplo_def
        processar_entrada_def salvar_evento_def split_beta Let_def)
  have ok: "sqlite_ok amb_exemplo c" for c
    by (simp add: amb_exemplo_def)
  from registro_no_log [OF run] criar_evento_exemplo a
  show ?thesis
    by (simp add: servidor_exemplo_def ok)
qed


section \<open>The slot board\<close>

lemma ocupadas_update_True:
  "map_of al k = Some False \<Longrightarrow>
   length (filter (\<lambda>(n, ocupada). ocupada) (AList.update k True al))
     = Suc (length (filter (\<lambda>(n, ocupada). ocupada) al))"
proof (induction al)
  case Nil
  then show ?case by simp
next
  case (Cons p al)
  obtain n b where p: "p = (n, b)" by (cases p)
  show ?case
  proof (cases "n = k")
    case True
    with Cons.prems p have "b = False" by simp
    with True p show ?thesis by simp
  next
    case False
    with Cons.prems p have "map_of al k = Some False" by simp
    then have "length (filter (\<lambda>(n, ocupada). ocupada) (AList.update k True al))
                 = Suc (length (filter (\<lambda>(n, ocupada). ocupada) al))"
      by (rule Cons.IH)
    with False p show ?thesis by simp
  qed
qed

lemma ocupadas_update_False:
  "map_of al k = Some True \<Longrightarrow>
   Suc (length (filter (\<lambda>(n, ocupada). ocupada) (AList.update k False al)))
     = length (filter (\<lambda>(n, ocupada). ocupada) al)"
proof (induction al)
  case Nil
  then show ?case by simp
next
  case (Cons p al)
  obtain n b where p: "p = (n, b)" by (cases p)
  show ?case
  proof (cases "n = k")
    case True
    with Cons.prems p have "b = True" by simp
    with True p show ?thesis by simp
  next
    case False
    with Cons.prems p have "map_of al k = Some True" by simp
    then have "Suc (length (filter (\<lambda>(n, ocupada). ocupada) (AList.update k False al)))
                 = length (filter (\<lambda>(n, ocupada). ocupada) al)"
      by (rule Cons.IH)
    with False p show ?thesis by simp
  qed
qed

lemma chaves_update:
  assumes "map_of al k = Some b"
  shows "map fst (AList.update k v al) = map fst al"
proof -
  from assms have "k \<in> fst ` set al" by (rule map_of_SomeD [THEN imageI, of _ _ _ fst, simplified])
  then show ?thesis by (simp add: update_keys)
qed

text \<open>
  The invariant of the board: the count of occupied flags and the free counter add up
  to the total, and the dictionary has exactly the slots \<open>0\<close> to \<open>total - 1\<close>.
\<close>

lemma placar_inicial:
  "ocupadas (PlacarService endereco n_total inicial simulacao)
     + vagas_livres (PlacarService endereco n_total inicial simulacao) = n_total
   \<and> map fst (vagas (PlacarService endereco n_total inicial simulacao)) = [0..n_total - 1]
   \<and> total_vagas (PlacarService endereco n_total inicial simulacao) = n_total"
proof -
  have "filter (\<lambda>(n, ocupada). ocupada) (map (\<lambda>i. (i, False)) xs) = []" for xs :: "int list"
    by (induction xs) simp_all
  moreover have "map fst (map (\<lambda>i. (i, False)) xs) = xs" for xs :: "int list"
    by (induction xs) simp_all
  ultimately show ?thesis
    by (simp add: PlacarService_def ocupadas_def)
qed

lemma ocupar_vaga_invariante:
  assumes "ocupadas s + vagas_livres s = total_vagas s"
    and "map fst (vagas s) = [0..total_vagas s - 1]"
  shows "ocupadas (snd (ocupar_vaga loop n s)) + vagas_livres (snd (ocupar_vaga loop n s))
           = total_vagas s
       \<and> map fst (vagas (snd (ocupar_vaga loop n s))) = [0..total_vagas s - 1]
       \<and> total_vagas (snd (ocupar_vaga loop n s)) = total_vagas s"
proof (cases "n < 0 \<or> n \<ge> total_vagas s")
  case True
  then have "ocupar_vaga loop n s = (Inr False, s)" by (auto simp add: ocupar_vaga_def)
  with assms show ?thesis by simp
next
  case dentro: False
  show ?thesis
  proof (cases "map_of (vagas s) n")
    case None
    with dentro have "ocupar_vaga loop n s = (Inl (KeyError (JNum (of_int n))), s)"
      by (auto simp add: ocupar_vaga_def)
    with assms show ?thesis by simp
  next
    case (Some b)
    show ?thesis
    proof (cases b)
      case True
      with dentro Some have "ocupar_vaga loop n s = (Inr False, s)"
        by (auto simp add: ocupar_vaga_def)
      with assms show ?thesis by simp
    next
      case False
      with dentro Some have
        "snd (ocupar_vaga loop n s)
           = s\<lparr>vagas := AList.update n True (vagas s), vagas_livres := vagas_livres s - 1\<rparr>"
        by (auto simp add: ocupar_vaga_def Let_def)
      moreover from Some False have
        "length (filter (\<lambda>(n, ocupada). ocupada) (AList.update n True (vagas s)))
           = Suc (length (filter (\<lambda>(n, ocupada). ocupada) (vagas s)))"
        by (simp add: ocupadas_update_True)
      moreover from Some have "map fst (AList.update n True (vagas s)) = map fst (vagas s)"
        by (rule chaves_update)
      ultimately show ?thesis
        using assms by (simp add: ocupadas_def)
    qed
  qed
qed

lemma liberar_vaga_invariante:
  assumes "ocupadas s + vagas_livres s = total_vagas s"
    and "map fst (vagas s) = [0..total_vagas s - 1]"
  shows "ocupadas (snd (liberar_vaga loop n s)) + vagas_livres (snd (liberar_vaga loop n s))
           = total_vagas s
       \<and> map fst (vagas (snd (liberar_vaga loop n s))) = [0..total_vagas s - 1]
       \<and> total_vagas (snd (liberar_vaga loop n s)) = total_vagas s"
proof (cases "n < 0 \<or> n \<ge> total_vagas s")
  case True
  then have "liberar_vaga loop n s = (Inr False, s)" by (auto simp add: liberar_vaga_def)
  with assms show ?thesis by simp
next
  case dentro: False
  show ?thesis
  proof (cases "map_of (vagas s) n")
    case None
    with dentro have "liberar_vaga loop n s = (Inl (KeyError (JNum (of_int n))), s)"
      by (auto simp add: liberar_vaga_def)
    with assms show ?thesis by simp
  next
    case (Some b)
    show ?thesis
    proof (cases b)
      case False
      with dentro Some have "liberar_vaga loop n s = (Inr False, s)"
        by (auto simp add: liberar_vaga_def)
      with assms show ?thesis by simp
    next
      case True
      with dentro Some have
        "snd (liberar_vaga loop n s)
           = s\<lparr>vagas := AList.update n False (vagas s), vagas_livres := vagas_livres s + 1\<rparr>"
        by (auto simp add: liberar_vaga_def Let_def)
      moreover from Some True have
        "Suc (length (filter (\<lambda>(n, ocupada). ocupada) (AList.update n False (vagas s))))
           = length (filter (\<lambda>(n, ocupada). ocupada) (vagas s))"
        by (simp add: ocupadas_update_False)
      moreover from Some have "map fst (AList.update n False (vagas s)) = map fst (vagas s)"
        by (rule chaves_update)
      ultimately show ?thesis
        using assms by (simp add: ocupadas_def)
    qed
  qed
qed

lemma executar_invariante:
  assumes "ocupadas s + vagas_livres s = total_vagas s"
    and "map fst (vagas s) = [0..total_vagas s - 1]"
  shows "ocupadas (executar cs s) + vagas_livres (executar cs s) = total_vagas s
       \<and> map fst (vagas (executar cs s)) = [0..total_vagas s - 1]
       \<and> total_vagas (executar cs s) = total_vagas s"
  using assms
proof (induction cs arbitrary: s)
  case Nil
  then show ?case by simp
next
  case (Cons c cs)
  have passo: "ocupadas (snd (chamar c s)) + vagas_livres (snd (chamar c s)) = total_vagas s
       \<and> map fst (vagas (snd (chamar c s))) = [0..total_vagas s - 1]
       \<and> total_vagas (snd (chamar c s)) = total_vagas s"
  proof (cases c)
    case (Ocupar loop n)
    with ocupar_vaga_invariante [OF Cons.prems] show ?thesis by simp
  next
    case (Liberar loop n)
    with liberar_vaga_invariante [OF Cons.prems] show ?thesis by simp
  qed
  then have "ocupadas (snd (chamar c s)) + vagas_livres (snd (chamar c s))
               = total_vagas (snd (chamar c s))"
    and "map fst (vagas (snd (chamar c s))) = [0..total_vagas (snd (chamar c s)) - 1]"
    by simp_all
  from Cons.IH [OF this] passo show ?case by simp
qed

lemma chave_presente:
  assumes "map fst al = [0..t - 1]" and "0 \<le> n" and "n < t"
  shows "map_of al n \<noteq> None"
proof -
  from assms(2,3) have "n \<in> set [0..t - 1]" by simp
  with assms(1) have "n \<in> fst ` set al" by (metis set_map)
  then show ?thesis by (simp add: map_of_eq_None_iff)
qed

text \<open>
  C7. After any sequence of calls of \<^verbatim>\<open>ocupar_vaga\<close> and \<^verbatim>\<open>liberar_vaga\<close> on a
  freshly made board, the number of slots flagged occupied plus the counter of free
  slots is the total, which never changes, and every slot from \<open>0\<close> to \<open>total - 1\<close>
  still has its flag. On that board, occupying a slot that is out of range or already
  occupied, and freeing a slot that is out of range or already free, return \<open>False\<close>
  and leave the board (flags and counters) exactly as it was.
\<close>

theorem placar_contagem:
  "(let s = executar cs (PlacarService endereco n_total inicial simulacao)
    in ocupadas s + vagas_livres s = total_vagas s
       \<and> total_vagas s = n_total
       \<and> total_vagas s - vagas_livres s = ocupadas s
       \<and> (\<forall>n. 0 \<le> n \<and> n < n_total \<longrightarrow> map_of (vagas s) n \<noteq> None)
       \<and> (\<forall>loop n. n < 0 \<or> n \<ge> n_total \<or> map_of (vagas s) n = Some True \<longrightarrow>
             ocupar_vaga loop n s = (Inr False, s))
       \<and> (\<forall>loop n. n < 0 \<or> n \<ge> n_total \<or> map_of (vagas s) n = Some False \<longrightarrow>
             liberar_vaga loop n s = (Inr False, s)))"
proof -
  let ?ini = "PlacarService endereco n_total inicial simulacao"
  let ?fim = "executar cs ?ini"
  from placar_inicial [of endereco n_total inicial simulacao]
  have i1: "ocupadas ?ini + vagas_livres ?ini = total_vagas ?ini"
    and i2: "map fst (vagas ?ini) = [0..total_vagas ?ini - 1]"
    and i3: "total_vagas ?ini = n_total"
    by simp_all
  from executar_invariante [OF i1 i2, of cs] i3
  have soma: "ocupadas ?fim + vagas_livres ?fim = total_vagas ?fim"
    and chaves: "map fst (vagas ?fim) = [0..n_total - 1]"
    and total: "total_vagas ?fim = n_total"
    by simp_all
  have presente: "map_of (vagas ?fim) n \<noteq> None" if "0 \<le> n \<and> n < n_total" for n
    using chaves that by (simp add: chave_presente)
  have ocupar: "ocupar_vaga loop n ?fim = (Inr False, ?fim)"
    if "n < 0 \<or> n \<ge> n_total \<or> map_of (vagas ?fim) n = Some True" for loop n
    using that total by (auto simp add: ocupar_vaga_def)
  have liberar: "liberar_vaga loop n ?fim = (Inr False, ?fim)"
    if "n < 0 \<or> n \<ge> n_total \<or> map_of (vagas ?fim) n = Some False" for loop n
    using that total by (auto simp add: liberar_vaga_def)
  from soma have dif: "total_vagas ?fim - vagas_livres ?fim = ocupadas ?fim" by simp
  show ?thesis
    unfolding Let_def
    using soma total dif presente ocupar liberar by blast
qed

lemma placar_exemplo:
  "executar [Ocupar True 0, Ocupar True 0, Liberar True 1] (PlacarService 3 2 0 True)
     = \<lparr>endereco_modbus = 3, total_vagas = 2, endereco_inicial_vagas = 0,
        modo_simulacao = True, vagas = [(0, True), (1, False)], vagas_livres = 1\<rparr>"
  by (simp add: PlacarService_def ocupar_vaga_def liberar_vaga_def upto.simps)

theorem placar_contagem_witness:
  "ocupadas \<lparr>endereco_modbus = 3, total_vagas = 2, endereco_inicial_vagas = 0,
        modo_simulacao = True, vagas = [(0, True), (1, False)], vagas_livres = 1\<rparr> + 1 = 2
   \<and> ocupar_vaga True 0 \<lparr>endereco_modbus = 3, total_vagas = 2, endereco_inicial_vagas = 0,
        modo_simulacao = True, vagas = [(0, True), (1, False)], vagas_livres = 1\<rparr>
      = (Inr False, \<lparr>endereco_modbus = 3, total_vagas = 2, endereco_inicial_vagas = 0,
        modo_simulacao = True, vagas = [(0, True), (1, False)], vagas_livres = 1\<rparr>)
   \<and> liberar_vaga True 1 \<lparr>endereco_modbus = 3, total_vagas = 2, endereco_inicial_vagas = 0,
        modo_simulacao = True, vagas = [(0, True), (1, False)], vagas_livres = 1\<rparr>
      = (Inr False, \<lparr>endereco_modbus = 3, total_vagas = 2, endereco_inicial_vagas = 0,
        modo_simulacao = True, vagas = [(0, True), (1, False)], vagas_livres = 1\<rparr>)
   \<and> ocupar_vaga True 7 \<lparr>endereco_modbus = 3, total_vagas = 2, endereco_inicial_vagas = 0,
        modo_simulacao = True, vagas = [(0, True), (1, False)], vagas_livres = 1\<rparr>
      = (Inr False, \<lparr>endereco_modbus = 3, total_vagas = 2, endereco_inicial_vagas = 0,
        modo_simulacao = True, vagas = [(0, True), (1, False)], vagas_livres = 1\<rparr>)"
proof -
  let ?s = "\<lparr>endereco_modbus = 3, total_vagas = 2, endereco_inicial_vagas = 0,
        modo_simulacao = True, vagas = [(0, True), (1, False)], vagas_livres = 1\<rparr>"
  from placar_contagem
    [of "[Ocupar True 0, Ocupar True 0, Liberar True 1]" 3 2 0 True]
  have t: "ocupadas ?s + vagas_livres ?s = total_vagas ?s
       \<and> (\<forall>loop n. n < 0 \<or> n \<ge> 2 \<or> map_of (vagas ?s) n = Some True \<longrightarrow>
             ocupar_vaga loop n ?s = (Inr False, ?s))
       \<and> (\<forall>loop n. n < 0 \<or> n \<ge> 2 \<or> map_of (vagas ?s) n = Some False \<longrightarrow>
             liberar_vaga loop n ?s = (Inr False, ?s))"
    unfolding placar_exemplo Let_def by blast
  have a: "map_of (vagas ?s) 0 = Some True" by simp
  have b: "map_of (vagas ?s) 1 = Some False" by simp
  have c: "(7::int) \<ge> 2" by simp
  from t a have o0: "ocupar_vaga True 0 ?s = (Inr False, ?s)" by blast
  from t b have l1: "liberar_vaga True 1 ?s = (Inr False, ?s)" by blast
  from t c have o7: "ocupar_vaga True 7 ?s = (Inr False, ?s)" by blast
  from t have "ocupadas ?s + 1 = 2" by simp
  with o0 l1 o7 show ?thesis by blast
qed


section \<open>Plate validation\<close>

lemma str_isalpha_take3:
  "length texto = 7 \<Longrightarrow> str_isalpha (take 3 texto) = list_all char_isalpha (take 3 texto)"
  by (cases texto) (simp_all add: str_isalpha_def)

lemma str_isdigit_drop3:
  "length texto = 7 \<Longrightarrow> str_isdigit (drop 3 texto) = list_all char_isdigit (drop 3 texto)"
proof -
  assume "length texto = 7"
  then have "length (drop 3 texto) = 4" by simp
  then have "drop 3 texto \<noteq> []" by auto
  then show ?thesis by (simp add: str_isdigit_def)
qed

lemma validar_placa_iff:
  "validar_placa texto c
     = (length texto = 7 \<and> list_all char_isalpha (take 3 texto)
        \<and> list_all char_isdigit (drop 3 texto))"
proof (cases "length texto = 7")
  case True
  then have "texto \<noteq> []" by auto
  with True show ?thesis
    by (simp add: validar_placa_def str_isalpha_take3 str_isdigit_drop3)
next
  case False
  then show ?thesis by (simp add: validar_placa_def)
qed

lemma upper_isalpha:
  "65 \<le> (of_char c :: nat) \<and> (of_char c :: nat) \<le> 90 \<Longrightarrow> char_isalpha c"
  by (simp add: char_isalpha_def Let_def)

lemma ascii_digit_isdigit:
  "48 \<le> (of_char c :: nat) \<and> (of_char c :: nat) \<le> 57 \<Longrightarrow> char_isdigit c"
  by (simp add: char_isdigit_def Let_def)

lemma formato_canonico_valido: "formato_canonico texto \<Longrightarrow> validar_placa texto c"
  unfolding validar_placa_iff formato_canonico_def list_all_iff
  using upper_isalpha ascii_digit_isdigit by blast

text \<open>
  C8, as the claim states it, fails: the lowercase string \<open>abc1234\<close> is accepted
  although it is not in the canonical format.
\<close>

theorem validar_placa_minusculas_counterexample:
  "validar_placa ''abc1234'' (7 / 10) \<and> \<not> formato_canonico ''abc1234''"
  by (simp add: validar_placa_def formato_canonico_def str_isalpha_def str_isdigit_def
      char_isalpha_def char_isdigit_def)

text \<open>
  C8, amended. \<^verbatim>\<open>validar_placa\<close> accepts a string exactly when it has seven
  characters of which the first three are letters for \<^verbatim>\<open>str.isalpha\<close> (of either
  case) and the last four are digits for \<^verbatim>\<open>str.isdigit\<close>. Every string in the
  canonical format is accepted, and every string of another length is rejected.
\<close>

theorem validar_placa_formato:
  "validar_placa texto c
     = (length texto = 7 \<and> list_all char_isalpha (take 3 texto)
        \<and> list_all char_isdigit (drop 3 texto))
   \<and> (formato_canonico texto \<longrightarrow> validar_placa texto c)
   \<and> (length texto \<noteq> 7 \<longrightarrow> \<not> validar_placa texto c)"
proof (intro conjI impI)
  show "validar_placa texto c
     = (length texto = 7 \<and> list_all char_isalpha (take 3 texto)
        \<and> list_all char_isdigit (drop 3 texto))"
    by (rule validar_placa_iff)
next
  assume "formato_canonico texto"
  then show "validar_placa texto c" by (rule formato_canonico_valido)
next
  assume "length texto \<noteq> 7"
  then show "\<not> validar_placa texto c" by (simp add: validar_placa_iff)
qed

theorem validar_placa_formato_witness:
  "formato_canonico ''ABC1234'' \<and> validar_placa ''ABC1234'' (7 / 10)
   \<and> length ''ABC123'' \<noteq> 7 \<and> \<not> validar_placa ''ABC123'' (7 / 10)"
proof -
  have a: "formato_canonico ''ABC1234''"
    by (simp add: formato_canonico_def)
  have b: "length ''ABC123'' \<noteq> 7"
    by simp
  from validar_placa_formato [of "''ABC1234''" "7 / 10"] a
  have c: "validar_placa ''ABC1234'' (7 / 10)" by blast
  from validar_placa_formato [of "''ABC123''" "7 / 10"] b
  have d: "\<not> validar_placa ''ABC123'' (7 / 10)" by blast
  from a b c d show ?thesis by blast
qed


section \<open>Serving a connection\<close>

lemma decode_msg_malformada: "decode_utf8 amb_exemplo msg_malformada = Some msg_malformada"
  by (simp add: amb_exemplo_def msg_malformada_def)

lemma decode_msg_entrada: "decode_utf8 amb_exemplo msg_entrada = Some msg_entrada"
  by (simp add: amb_exemplo_def msg_entrada_def)

lemma strip_msg_malformada:
  "py_strip msg_malformada = ''{'' @ [CHR 0x22] @ ''placa'' @ [CHR 0x22] @ '':''"
  by (simp add: py_strip_def msg_malformada_def char_isspace_def)

lemma strip_msg_entrada:
  "py_strip msg_entrada = ''{'' @ [CHR 0x22] @ ''placa'' @ [CHR 0x22] @ '': '' @ [CHR 0x22]
     @ ''ABC1234'' @ [CHR 0x22] @ '', ...}''"
  by (simp add: py_strip_def msg_entrada_def char_isspace_def)

lemma loads_msg_malformada: "json_loads amb_exemplo (py_strip msg_malformada) = None"
  by (simp add: amb_exemplo_def strip_msg_entrada strip_msg_malformada)

lemma loads_msg_entrada:
  "json_loads amb_exemplo (py_strip msg_entrada)
     = Some (dados_exemplo ''entrada'' ''2024-01-01T10:00:00'')"
  by (simp add: amb_exemplo_def)

lemma acao_entrada_exemplo:
  "acao (fst (processar_evento amb_exemplo (dados_exemplo ''entrada'' ''2024-01-01T10:00:00'')
                (servidor_exemplo False Map.empty))) = ''abrir_cancela''"
  by (simp add: processar_evento_def criar_evento_def dados_exemplo_def amb_exemplo_def
      servidor_exemplo_def processar_entrada_def salvar_evento_def split_beta Let_def)

lemma handle_cliente_ultima:
  assumes "data \<noteq> []" and "decode_utf8 amb data = Some texto"
    and "json_loads amb (py_strip texto) = Some dados"
  shows "fst (handle_cliente amb [data] st) = [fst (processar_evento amb dados st)]"
  using assms by (simp add: split_beta)

text \<open>
  C9, as the claim states it, fails: after a message that is not well-formed JSON the
  connection is still served, and the entry request that follows on the same connection
  gets its response.
\<close>

theorem json_invalido_counterexample:
  "json_loads amb_exemplo (py_strip msg_malformada) = None
   \<and> map acao (fst (handle_cliente amb_exemplo [msg_malformada, msg_entrada]
                      (servidor_exemplo False Map.empty))) = [''abrir_cancela'']"
proof -
  have m: "msg_malformada \<noteq> []" by (simp add: msg_malformada_def)
  have e: "msg_entrada \<noteq> []" by (simp add: msg_entrada_def)
  have "handle_cliente amb_exemplo [msg_malformada, msg_entrada] (servidor_exemplo False Map.empty)
          = handle_cliente amb_exemplo [msg_entrada] (servidor_exemplo False Map.empty)"
    using m by (simp add: decode_msg_malformada loads_msg_malformada)
  then show ?thesis
    by (simp only: loads_msg_malformada
        handle_cliente_ultima [OF e decode_msg_entrada loads_msg_entrada]
        acao_entrada_exemplo list.map simp_thms)
qed

text \<open>
  C9, amended. For a message that is not well-formed JSON no response is written and
  the server state does not change. The connection is dropped only when the bytes do
  not decode as UTF-8; when they decode but do not parse, the handler keeps the
  connection and goes on reading, so the result is that of serving the remaining
  messages alone.
\<close>

theorem json_invalido_sem_resposta:
  assumes "data \<noteq> []"
    and "case decode_utf8 amb data of
           None \<Rightarrow> True
         | Some texto \<Rightarrow> json_loads amb (py_strip texto) = None"
  shows "handle_cliente amb (data # resto) st
           = (case decode_utf8 amb data of
                None \<Rightarrow> ([], st)
              | Some texto \<Rightarrow> handle_cliente amb resto st)"
proof (cases "decode_utf8 amb data")
  case None
  with assms(1) show ?thesis by simp
next
  case (Some texto)
  with assms(2) have "json_loads amb (py_strip texto) = None" by simp
  with assms(1) Some show ?thesis by simp
qed

theorem json_invalido_sem_resposta_witness:
  "handle_cliente amb_exemplo [msg_malformada] (servidor_exemplo False Map.empty)
     = ([], servidor_exemplo False Map.empty)
   \<and> handle_cliente amb_exemplo [msg_malformada, msg_entrada] (servidor_exemplo False Map.empty)
     = handle_cliente amb_exemplo [msg_entrada] (servidor_exemplo False Map.empty)"
proof -
  have m: "msg_malformada \<noteq> []" by (simp add: msg_malformada_def)
  have h: "case decode_utf8 amb_exemplo msg_malformada of
           None \<Rightarrow> True
         | Some texto \<Rightarrow> json_loads amb_exemplo (py_strip texto) = None"
    by (simp add: decode_msg_malformada loads_msg_malformada)
  from json_invalido_sem_resposta [OF m h, of "[]" "servidor_exemplo False Map.empty"]
  have a: "handle_cliente amb_exemplo [msg_malformada] (servidor_exemplo False Map.empty)
     = ([], servidor_exemplo False Map.empty)"
    by (simp add: decode_msg_malformada)
  from json_invalido_sem_resposta
    [OF m h, of "[msg_entrada]" "servidor_exemplo False Map.empty"]
  have b: "handle_cliente amb_exemplo [msg_malformada, msg_entrada]
             (servidor_exemplo False Map.empty)
     = handle_cliente amb_exemplo [msg_entrada] (servidor_exemplo False Map.empty)"
    by (simp only: decode_msg_malformada option.case)
  from a b show ?thesis by (rule conjI)
qed

end
